theory Spec2Isabelle
  imports Main "HOL-Library.Multiset" "HOL-Library.Sublist"
begin

section \<open>Values, rows and frames\<close>

text \<open>
  A cell of a result set.  \<open>Duracao n\<close> is a pandas \<open>Timedelta\<close> of \<open>n\<close> nanoseconds,
  \<open>Nulo\<close> stands for \<open>None\<close>, \<open>NaN\<close> and \<open>NaT\<close>.
\<close>

datatype valor = Nulo | Texto string | Inteiro int | Duracao int

text \<open>The column types that \<open>processar_dados\<close> tells apart (lines 190 and 192).\<close>

datatype dtype = Timedelta64 | Object | Utf8 | Other

text \<open>
  A row maps column names to cells; a frame carries its schema (names with types, in
  column order) and its rows in order.  Column names are taken to be unique.
\<close>

type_synonym linha = "(string \<times> valor) list"

record frame =
  colunas :: "(string \<times> dtype) list"
  linhas :: "linha list"

datatype erro =
    OperationalError
  | ValueError
  | IndexError
  | KeyError
  | FileNotFoundError
  | FileExistsError
  | OutroErro string

definition nomes :: "frame \<Rightarrow> string list" where
  "nomes df = map fst (colunas df)"

definition celula :: "linha \<Rightarrow> string \<Rightarrow> valor" where
  "celula r c = (case map_of r c of None \<Rightarrow> Nulo | Some v \<Rightarrow> v)"

fun atualizar :: "'k \<Rightarrow> 'v \<Rightarrow> ('k \<times> 'v) list \<Rightarrow> ('k \<times> 'v) list" where
  "atualizar k v [] = [(k, v)]"
| "atualizar k v (p # ps) = (if fst p = k then (k, v) # ps else p # atualizar k v ps)"

text \<open>\<open>df.empty\<close>: true when either axis has length zero.\<close>

definition df_empty :: "frame \<Rightarrow> bool" where
  "df_empty df = (linhas df = [] \<or> colunas df = [])"

text \<open>
  Assigning a column (\<open>df[c] = ...\<close> in pandas, \<open>with_columns(... .alias(c))\<close> in polars):
  an existing column is replaced in place, a new one is appended.
\<close>

definition com_coluna :: "string \<Rightarrow> dtype \<Rightarrow> (linha \<Rightarrow> valor) \<Rightarrow> frame \<Rightarrow> frame" where
  "com_coluna c t f df =
     df\<lparr>colunas := atualizar c t (colunas df),
        linhas := map (\<lambda>r. atualizar c (f r) r) (linhas df)\<rparr>"

section \<open>Text helpers of the Python runtime\<close>

definition digito :: "nat \<Rightarrow> char" where
  "digito n =
     (let d = n mod 10
      in if d < 1 then CHR ''0'' else if d < 2 then CHR ''1'' else if d < 3 then CHR ''2''
         else if d < 4 then CHR ''3'' else if d < 5 then CHR ''4'' else if d < 6 then CHR ''5''
         else if d < 7 then CHR ''6'' else if d < 8 then CHR ''7'' else if d < 9 then CHR ''8''
         else CHR ''9'')"

fun decimal :: "nat \<Rightarrow> string" where
  "decimal n = (if n < 10 then [digito n] else decimal (n div 10) @ [digito n])"

declare decimal.simps [simp del]

definition py_str_int :: "int \<Rightarrow> string" where
  "py_str_int i = (if i < 0 then CHR ''-'' # decimal (nat (- i)) else decimal (nat i))"

text \<open>Python's \<open>{x:02}\<close> and \<open>{x:03}\<close>: zero padding on the left up to the width.\<close>

definition zfill :: "nat \<Rightarrow> nat \<Rightarrow> string" where
  "zfill w n = replicate (w - length (decimal n)) CHR ''0'' @ decimal n"

text \<open>
  \<open>str(x)\<close> of a pandas \<open>Timedelta\<close> (its long format):
  \<open>{days} days{sign}{hours:02}:{minutes:02}:{seconds:02}\<close>, followed by
  \<open>.{milliseconds:03}{microseconds:03}\<close> when a sub-second component is not zero and by
  \<open>{nanoseconds:03}\<close> when the nanosecond component is not zero; \<open>sign\<close> is \<open>" +"\<close> for a
  negative number of days and \<open>" "\<close> otherwise.  The components are those of floor
  division, so the time part is never negative.
\<close>

definition timedelta_str :: "int \<Rightarrow> string" where
  "timedelta_str n =
     (let d = n div 86400000000000;
          r = n mod 86400000000000;
          h = nat (r div 3600000000000);
          m = nat ((r div 60000000000) mod 60);
          s = nat ((r div 1000000000) mod 60);
          ms = nat ((r div 1000000) mod 1000);
          us = nat ((r div 1000) mod 1000);
          ns = nat (r mod 1000);
          sign = (if d < 0 then '' +'' else '' '');
          seconds_fmt =
            (if ms \<noteq> 0 \<or> us \<noteq> 0 \<or> ns \<noteq> 0
             then zfill 2 s @ ''.'' @ zfill 3 ms @ zfill 3 us @ (if ns \<noteq> 0 then zfill 3 ns else [])
             else zfill 2 s)
      in py_str_int d @ '' days'' @ sign @ zfill 2 h @ '':'' @ zfill 2 m @ '':'' @ seconds_fmt)"

definition py_str :: "valor \<Rightarrow> string" where
  "py_str v = (case v of Nulo \<Rightarrow> ''None'' | Texto s \<Rightarrow> s | Inteiro i \<Rightarrow> py_str_int i
               | Duracao n \<Rightarrow> timedelta_str n)"

definition pd_isna :: "valor \<Rightarrow> bool" where
  "pd_isna v = (v = Nulo)"

text \<open>The ASCII characters that \<open>str.split()\<close> treats as white space.\<close>

definition espaco :: "char \<Rightarrow> bool" where
  "espaco c = (c \<in> set [CHR '' '', CHR 0x09, CHR 0x0A, CHR 0x0B, CHR 0x0C, CHR 0x0D,
                        CHR 0x1C, CHR 0x1D, CHR 0x1E, CHR 0x1F])"

text \<open>\<open>s.split()\<close>: the maximal runs of characters that are not white space.\<close>

fun py_split_aux :: "string \<Rightarrow> string \<Rightarrow> string list" where
  "py_split_aux acc [] = (if acc = [] then [] else [acc])"
| "py_split_aux acc (c # cs) =
     (if espaco c then (if acc = [] then py_split_aux [] cs else acc # py_split_aux [] cs)
      else py_split_aux (acc @ [c]) cs)"

definition py_split :: "string \<Rightarrow> string list" where
  "py_split s = py_split_aux [] s"

definition e_digito :: "char \<Rightarrow> bool" where
  "e_digito c = (c \<in> set ''0123456789'')"

text \<open>Whether a string starts with a match of \<open>\d{2}:\d{2}:\d{2}\<close>.\<close>

fun casa_hora :: "string \<Rightarrow> bool" where
  "casa_hora (a # b # c # d # e # f # g # h # _) =
     (e_digito a \<and> e_digito b \<and> c = CHR '':'' \<and> e_digito d \<and> e_digito e \<and> f = CHR '':''
      \<and> e_digito g \<and> e_digito h)"
| "casa_hora _ = False"

text \<open>\<open>Series.str.extract(r"(\d{2}:\d{2}:\d{2})")[0]\<close>: the leftmost match, if any.\<close>

fun str_extract :: "string \<Rightarrow> string option" where
  "str_extract [] = None"
| "str_extract (c # cs) = (if casa_hora (c # cs) then Some (take 8 (c # cs)) else str_extract cs)"

section \<open>Time-column normalisation (lines 189-193)\<close>

text \<open>Line 191, the function applied to each cell of a \<open>timedelta64\<close> column.\<close>

definition hora_timedelta :: "valor \<Rightarrow> erro + valor" where
  "hora_timedelta x =
     (if \<not> pd_isna x
      then (case py_split (py_str x) of [] \<Rightarrow> Inl IndexError | t # ts \<Rightarrow> Inr (Texto (last (t # ts))))
      else Inr (Texto ''00:00:00''))"

text \<open>Line 193, on each cell of an \<open>object\<close> column.\<close>

definition hora_objeto :: "valor \<Rightarrow> valor" where
  "hora_objeto x = (case str_extract (py_str x) of None \<Rightarrow> Texto ''00:00:00'' | Some m \<Rightarrow> Texto m)"

fun aplicar :: "('a \<Rightarrow> erro + 'b) \<Rightarrow> 'a list \<Rightarrow> erro + 'b list" where
  "aplicar f [] = Inr []"
| "aplicar f (x # xs) =
     (case f x of Inl e \<Rightarrow> Inl e
      | Inr y \<Rightarrow> (case aplicar f xs of Inl e \<Rightarrow> Inl e | Inr ys \<Rightarrow> Inr (y # ys)))"

definition normalizar_hora :: "frame \<Rightarrow> erro + frame" where
  "normalizar_hora df =
     (case map_of (colunas df) ''HoraVenda'' of
        None \<Rightarrow> Inr df
      | Some t \<Rightarrow>
          if t = Timedelta64 then
            (case aplicar (\<lambda>r. hora_timedelta (celula r ''HoraVenda'')) (linhas df) of
               Inl e \<Rightarrow> Inl e
             | Inr vs \<Rightarrow>
                 Inr (df\<lparr>colunas := atualizar ''HoraVenda'' Object (colunas df),
                         linhas := map (\<lambda>(r, v). atualizar ''HoraVenda'' v r) (zip (linhas df) vs)\<rparr>))
          else if t = Object then
            Inr (com_coluna ''HoraVenda'' Object (\<lambda>r. hora_objeto (celula r ''HoraVenda'')) df)
          else Inr df)"

section \<open>The world outside the process\<close>

text \<open>
  A path is the list of its components, so \<open>os.path.join p n\<close> appends one component and
  Python's empty string is the empty list.  The file system holds the directories that exist
  and the files with their directory, their name and their rows.  The trace records what was
  done to the database sessions and how long the process slept; sessions are numbered in the
  order in which they are opened.
\<close>

type_synonym caminho = "string list"

datatype evento =
    Conectou nat
  | Executou nat "string option"
  | Dormiu nat
  | Fechou nat

record mundo =
  pastas :: "caminho list"
  arquivos :: "(caminho \<times> string \<times> linha list) list"
  eventos :: "evento list"

datatype resposta = Resultado frame | Levanta erro

text \<open>
  What the program reads from its surroundings: the answer of the database to the
  \<open>n\<close>-th execution (counted over the whole run) of a query text, whether a session can
  be opened, \<open>STORAGE_CONFIG["idemp"]\<close>, the formatted current time, the text
  representation the Arrow engine gives a value (\<open>None\<close> for null), and the function
  \<open>ajustar_tipos_dados\<close> of the module \<open>dicionario_dados\<close>.
\<close>

record ambiente =
  banco :: "nat \<Rightarrow> string option \<Rightarrow> resposta"
  falha_conexao :: "erro option"
  idemp :: valor
  agora :: string
  como_texto :: "valor \<Rightarrow> string option"
  ajustar_tipos_dados :: "frame \<Rightarrow> string \<Rightarrow> erro + frame"

definition os_path_join :: "caminho \<Rightarrow> string \<Rightarrow> caminho" where
  "os_path_join p n = p @ [n]"

definition e_arquivo :: "mundo \<Rightarrow> caminho \<Rightarrow> bool" where
  "e_arquivo w p = (p \<noteq> [] \<and> (butlast p, last p) \<in> set (map (\<lambda>(d, n, rs). (d, n)) (arquivos w)))"

text \<open>The path itself and the directories above it, outermost first.\<close>

definition ancestrais :: "caminho \<Rightarrow> caminho list" where
  "ancestrais p = map (\<lambda>k. take k p) [1..<Suc (length p)]"

definition criar_pastas :: "caminho list \<Rightarrow> mundo \<Rightarrow> mundo" where
  "criar_pastas ds w = w\<lparr>pastas := pastas w @ filter (\<lambda>q. q \<notin> set (pastas w)) (remdups ds)\<rparr>"

text \<open>\<open>os.makedirs(p, exist_ok=True)\<close>.\<close>

definition os_makedirs :: "caminho \<Rightarrow> mundo \<Rightarrow> (erro + unit) \<times> mundo" where
  "os_makedirs p w =
     (if p = [] then (Inl FileNotFoundError, w)
      else if list_ex (e_arquivo w) (ancestrais p) then (Inl FileExistsError, w)
      else (Inr (), criar_pastas (ancestrais p) w))"

text \<open>\<open>os.listdir(d)\<close>: the names of the entries directly inside \<open>d\<close>, files and directories.\<close>

definition os_listdir :: "mundo \<Rightarrow> caminho \<Rightarrow> erro + string list" where
  "os_listdir w d =
     (if d \<in> set (pastas w)
      then Inr (remdups (map last (filter (\<lambda>q. q \<noteq> [] \<and> butlast q = d) (pastas w))
                         @ map (\<lambda>(dir, n, rs). n) (filter (\<lambda>(dir, n, rs). dir = d) (arquivos w))))
      else Inl FileNotFoundError)"

definition e_execucao :: "evento \<Rightarrow> bool" where
  "e_execucao ev = (case ev of Executou s q \<Rightarrow> True | _ \<Rightarrow> False)"

definition chamadas :: "mundo \<Rightarrow> nat" where
  "chamadas w = length (filter e_execucao (eventos w))"

definition e_conexao :: "evento \<Rightarrow> bool" where
  "e_conexao ev = (case ev of Conectou s \<Rightarrow> True | _ \<Rightarrow> False)"

definition registrar :: "evento \<Rightarrow> mundo \<Rightarrow> mundo" where
  "registrar ev w = w\<lparr>eventos := eventos w @ [ev]\<rparr>"

text \<open>\<open>pd.read_sql(query, con=conexao)\<close>.\<close>

definition pd_read_sql :: "ambiente \<Rightarrow> nat \<Rightarrow> string option \<Rightarrow> mundo \<Rightarrow> (erro + frame) \<times> mundo" where
  "pd_read_sql amb con q w =
     (case banco amb (chamadas w) q of
        Resultado df \<Rightarrow> (Inr df, registrar (Executou con q) w)
      | Levanta e \<Rightarrow> (Inl e, registrar (Executou con q) w))"

definition time_sleep :: "nat \<Rightarrow> mundo \<Rightarrow> mundo" where
  "time_sleep s w = registrar (Dormiu s) w"

section \<open>Connections (lines 27-67)\<close>

text \<open>\<open>conectar_ao_banco\<close> logs and re-raises what \<open>engine.connect()\<close> raises.\<close>

definition conectar_ao_banco :: "ambiente \<Rightarrow> mundo \<Rightarrow> (erro + nat) \<times> mundo" where
  "conectar_ao_banco amb w =
     (case falha_conexao amb of
        Some e \<Rightarrow> (Inl e, w)
      | None \<Rightarrow> (let con = length (filter e_conexao (eventos w))
                 in (Inr con, registrar (Conectou con) w)))"

text \<open>\<open>fechar_conexao\<close> catches every exception of \<open>close()\<close>.\<close>

definition fechar_conexao :: "nat \<Rightarrow> mundo \<Rightarrow> mundo" where
  "fechar_conexao con w = registrar (Fechou con) w"

section \<open>The dataset materialiser \<open>processar_dados\<close> (lines 159-232)\<close>

text \<open>Lines 183-187.\<close>

definition escolher_coluna_data :: "string \<Rightarrow> frame \<Rightarrow> string option" where
  "escolher_coluna_data nome df =
     (if nome = ''Vendas'' \<and> ''DataVenda'' \<in> set (nomes df) then Some ''DataVenda''
      else if nome = ''Compras'' \<and> ''DataEmissaoNF'' \<in> set (nomes df) then Some ''DataEmissaoNF''
      else None)"

definition tipo_lit :: "valor \<Rightarrow> dtype" where
  "tipo_lit v = (case v of Texto s \<Rightarrow> Utf8 | _ \<Rightarrow> Other)"

text \<open>Lines 196-200: the three literal columns.\<close>

definition aumentar :: "ambiente \<Rightarrow> frame \<Rightarrow> frame" where
  "aumentar amb df =
     com_coluna ''idEmp'' (tipo_lit (idemp amb)) (\<lambda>r. idemp amb)
       (com_coluna ''idEmpresa'' (tipo_lit (idemp amb)) (\<lambda>r. idemp amb)
          (com_coluna ''DataHoraAtualizacao'' Utf8 (\<lambda>r. Texto (agora amb)) df))"

definition cast_utf8 :: "ambiente \<Rightarrow> valor \<Rightarrow> valor" where
  "cast_utf8 amb v = (case como_texto amb v of None \<Rightarrow> Nulo | Some s \<Rightarrow> Texto s)"

text \<open>\<open>.str.slice(offset, length)\<close>; null stays null.\<close>

definition str_slice :: "nat \<Rightarrow> nat \<Rightarrow> valor \<Rightarrow> valor" where
  "str_slice off n v = (case v of Texto s \<Rightarrow> Texto (take n (drop off s)) | _ \<Rightarrow> Nulo)"

text \<open>Lines 202-207: both new columns are computed from the same (cast) date column.\<close>

definition derivar_ano_mes :: "ambiente \<Rightarrow> string option \<Rightarrow> frame \<Rightarrow> frame" where
  "derivar_ano_mes amb coluna_data df =
     (case coluna_data of
        None \<Rightarrow> df
      | Some c \<Rightarrow>
          (let df1 = com_coluna c Utf8 (\<lambda>r. cast_utf8 amb (celula r c)) df
           in df1\<lparr>colunas := atualizar ''Mes'' Utf8 (atualizar ''Ano'' Utf8 (colunas df1)),
                  linhas := map (\<lambda>r. atualizar ''Mes'' (str_slice 5 2 (celula r c))
                                        (atualizar ''Ano'' (str_slice 0 4 (celula r c)) r))
                                (linhas df1)\<rparr>))"

text \<open>Line 216.\<close>

definition partition_cols :: "string option \<Rightarrow> string list" where
  "partition_cols coluna_data = [''idEmpresa''] @ (if coluna_data \<noteq> None then [''Ano'', ''Mes''] else [])"

text \<open>
  Lines 189-213 without the file system: normalisation, the injected columns, the derived
  columns, the type adjustment and the check of line 212.
\<close>

definition quadro_final :: "ambiente \<Rightarrow> frame \<Rightarrow> string \<Rightarrow> erro + frame" where
  "quadro_final amb df nome =
     (case normalizar_hora df of
        Inl e \<Rightarrow> Inl e
      | Inr df1 \<Rightarrow>
          (case ajustar_tipos_dados amb
                  (derivar_ano_mes amb (escolher_coluna_data nome df) (aumentar amb df1)) nome of
             Inl e \<Rightarrow> Inl e
           | Inr df2 \<Rightarrow> if ''idEmpresa'' \<notin> set (nomes df2) then Inl ValueError else Inr df2))"

subsection \<open>The partitioned write and the listing\<close>

text \<open>
  \<open>pq.write_to_dataset\<close> with \<open>partition_cols\<close>: the rows are grouped by their values in
  the partition columns; each group goes to one new file in the directory
  \<open>root/col1=v1/.../colk=vk\<close>, without the partition columns; a null value is written as
  \<open>__HIVE_DEFAULT_PARTITION__\<close>.  Files already there are kept.  A partition column that the
  table does not have is an error.
\<close>

definition chave :: "string list \<Rightarrow> linha \<Rightarrow> valor list" where
  "chave cols r = map (celula r) cols"

definition nome_particao :: "ambiente \<Rightarrow> string \<Rightarrow> valor \<Rightarrow> string" where
  "nome_particao amb c v =
     c @ ''='' @ (case como_texto amb v of None \<Rightarrow> ''__HIVE_DEFAULT_PARTITION__'' | Some s \<Rightarrow> s)"

definition pasta_particao :: "ambiente \<Rightarrow> caminho \<Rightarrow> string list \<Rightarrow> valor list \<Rightarrow> caminho" where
  "pasta_particao amb root cols k = root @ map (\<lambda>(c, v). nome_particao amb c v) (zip cols k)"

definition sem_colunas :: "string list \<Rightarrow> linha \<Rightarrow> linha" where
  "sem_colunas cols r = filter (\<lambda>(c, v). c \<notin> set cols) r"

definition grupos :: "string list \<Rightarrow> linha list \<Rightarrow> (valor list \<times> linha list) list" where
  "grupos cols rs =
     map (\<lambda>k. (k, filter (\<lambda>r. chave cols r = k) rs)) (remdups (map (chave cols) rs))"

definition nome_arquivo :: "nat \<Rightarrow> string" where
  "nome_arquivo i = ''part-'' @ decimal i @ ''.parquet''"

definition novos_arquivos ::
  "ambiente \<Rightarrow> frame \<Rightarrow> caminho \<Rightarrow> string list \<Rightarrow> nat \<Rightarrow> (caminho \<times> string \<times> linha list) list" where
  "novos_arquivos amb df root cols n =
     map (\<lambda>(i, (k, rs)). (pasta_particao amb root cols k, nome_arquivo i, map (sem_colunas cols) rs))
         (enumerate n (grupos cols (linhas df)))"

definition pq_write_to_dataset ::
  "ambiente \<Rightarrow> frame \<Rightarrow> caminho \<Rightarrow> string list \<Rightarrow> mundo \<Rightarrow> (erro + unit) \<times> mundo" where
  "pq_write_to_dataset amb df root cols w =
     (if \<not> list_all (\<lambda>c. c \<in> set (nomes df)) cols then (Inl KeyError, w)
      else (case os_makedirs root w of
              (Inl e, w1) \<Rightarrow> (Inl e, w1)
            | (Inr u, w1) \<Rightarrow>
                (let novos = novos_arquivos amb df root cols (length (arquivos w1));
                     w2 = criar_pastas (concat (map (\<lambda>(d, n, rs). ancestrais d) novos)) w1
                 in (Inr (), w2\<lparr>arquivos := arquivos w2 @ novos\<rparr>))))"

text \<open>The body of the \<open>try\<close> of \<open>processar_dados\<close>, lines 180-228.\<close>

definition processar_dados_corpo ::
  "ambiente \<Rightarrow> frame \<Rightarrow> string \<Rightarrow> caminho \<Rightarrow> mundo \<Rightarrow> (erro + caminho \<times> caminho set) \<times> mundo" where
  "processar_dados_corpo amb df_pandas nome pasta_temp w =
     (case os_makedirs pasta_temp w of
        (Inl e, w1) \<Rightarrow> (Inl e, w1)
      | (Inr u, w1) \<Rightarrow>
          (let pasta_consulta = os_path_join pasta_temp nome;
               coluna_data = escolher_coluna_data nome df_pandas
           in (case quadro_final amb df_pandas nome of
                 Inl e \<Rightarrow> (Inl e, w1)
               | Inr df_polars \<Rightarrow>
                   (case pq_write_to_dataset amb df_polars pasta_consulta (partition_cols coluna_data) w1 of
                      (Inl e, w2) \<Rightarrow> (Inl e, w2)
                    | (Inr u2, w2) \<Rightarrow>
                        (case os_listdir w2 pasta_consulta of
                           Inl e \<Rightarrow> (Inl e, w2)
                         | Inr ds \<Rightarrow>
                             (Inr (pasta_consulta, set (map (os_path_join pasta_consulta) ds)), w2))))))"

text \<open>Lines 230-232: every exception of the body becomes the pair of the empty string and the empty set.\<close>

definition processar_dados ::
  "ambiente \<Rightarrow> frame \<Rightarrow> string \<Rightarrow> caminho \<Rightarrow> mundo \<Rightarrow> (erro + caminho \<times> caminho set) \<times> mundo" where
  "processar_dados amb df_pandas nome pasta_temp w =
     (case processar_dados_corpo amb df_pandas nome pasta_temp w of
        (Inl e, w1) \<Rightarrow> (Inr ([], {}), w1)
      | (Inr r, w1) \<Rightarrow> (Inr r, w1))"

section \<open>The query runner \<open>executar_consulta\<close> (lines 133-157)\<close>

text \<open>The body of the \<open>try\<close>, lines 142-149.\<close>

definition tentativa ::
  "ambiente \<Rightarrow> nat \<Rightarrow> string \<Rightarrow> string option \<Rightarrow> caminho \<Rightarrow> mundo \<Rightarrow> (erro + caminho \<times> caminho set) \<times> mundo" where
  "tentativa amb conexao nome query pasta_temp w =
     (case pd_read_sql amb conexao query w of
        (Inl e, w1) \<Rightarrow> (Inl e, w1)
      | (Inr df_pandas, w1) \<Rightarrow>
          if df_empty df_pandas then (Inr ([], {}), w1)
          else processar_dados amb df_pandas nome pasta_temp w1)"

text \<open>The \<open>for\<close> loop with its two handlers; the first argument counts the attempts left.\<close>

fun repetir ::
  "nat \<Rightarrow> ambiente \<Rightarrow> nat \<Rightarrow> string \<Rightarrow> string option \<Rightarrow> caminho \<Rightarrow> mundo \<Rightarrow> (erro + caminho \<times> caminho set) \<times> mundo" where
  "repetir 0 amb conexao nome query pasta_temp w = (Inr ([], {}), w)"
| "repetir (Suc n) amb conexao nome query pasta_temp w =
     (case tentativa amb conexao nome query pasta_temp w of
        (Inr r, w1) \<Rightarrow> (Inr r, w1)
      | (Inl e, w1) \<Rightarrow>
          if e = OperationalError then repetir n amb conexao nome query pasta_temp (time_sleep 5 w1)
          else (Inr ([], {}), w1))"

definition retries :: nat where
  "retries = 5"

definition executar_consulta ::
  "ambiente \<Rightarrow> nat \<Rightarrow> string \<Rightarrow> string option \<Rightarrow> caminho \<Rightarrow> mundo \<Rightarrow> (erro + caminho \<times> caminho set) \<times> mundo" where
  "executar_consulta amb conexao nome query pasta_temp w =
     repetir retries amb conexao nome query pasta_temp w"

section \<open>The orchestrator \<open>executar_consultas\<close> (lines 73-131)\<close>

type_synonym consulta = "(string \<times> string) list"

definition nome_da_consulta :: "consulta \<Rightarrow> string" where
  "nome_da_consulta consulta =
     filter (\<lambda>c. c \<noteq> CHR '' '') (case map_of consulta ''name'' of None \<Rightarrow> [] | Some s \<Rightarrow> s)"

text \<open>Lines 96-107; the second component is \<open>None\<close> where the source returns \<open>None\<close>.\<close>

definition processa_consulta ::
  "ambiente \<Rightarrow> nat \<Rightarrow> caminho \<Rightarrow> consulta \<Rightarrow> mundo \<Rightarrow> (string \<times> caminho option \<times> caminho set) \<times> mundo" where
  "processa_consulta amb conexao_persistente pasta_temp consulta w =
     (let nome_consulta = nome_da_consulta consulta;
          query = map_of consulta ''query''
      in (case executar_consulta amb conexao_persistente nome_consulta query pasta_temp w of
            (Inr (pasta_consulta, particoes), w1) \<Rightarrow> ((nome_consulta, Some pasta_consulta, particoes), w1)
          | (Inl e, w1) \<Rightarrow> ((nome_consulta, None, {}), w1)))"

record resultado =
  resultados :: "string \<rightharpoonup> caminho"
  particoes_criadas :: "string \<rightharpoonup> caminho set"

definition vazio :: resultado where
  "vazio = \<lparr>resultados = Map.empty, particoes_criadas = Map.empty\<rparr>"

text \<open>Lines 116-118 and 122-124: \<open>if pasta_consulta:\<close> is false for \<open>None\<close> and for the empty string.\<close>

definition guardar :: "string \<times> caminho option \<times> caminho set \<Rightarrow> resultado \<Rightarrow> resultado" where
  "guardar t acc =
     (case t of (nome_consulta, pasta_consulta, particoes) \<Rightarrow>
        (case pasta_consulta of
           None \<Rightarrow> acc
         | Some p \<Rightarrow>
             if p \<noteq> []
             then acc\<lparr>resultados := (resultados acc)(nome_consulta \<mapsto> p),
                       particoes_criadas := (particoes_criadas acc)(nome_consulta \<mapsto> particoes)\<rparr>
             else acc))"

text \<open>
  The loop over the queries.  In sequential mode the list is \<open>consultas\<close>; in parallel mode
  the tasks of the pool are run one after the other, in the order in which they complete.
\<close>

fun laco :: "ambiente \<Rightarrow> nat \<Rightarrow> caminho \<Rightarrow> consulta list \<Rightarrow> resultado \<times> mundo \<Rightarrow> resultado \<times> mundo" where
  "laco amb con pasta_temp [] st = st"
| "laco amb con pasta_temp (c # cs) st =
     (case processa_consulta amb con pasta_temp c (snd st) of
        (t, w1) \<Rightarrow> laco amb con pasta_temp cs (guardar t (fst st), w1))"

definition ordem :: "nat list \<Rightarrow> 'a list \<Rightarrow> 'a list" where
  "ordem agenda xs = map (\<lambda>i. xs ! i) (filter (\<lambda>i. i < length xs) agenda)"

text \<open>
  \<open>agenda\<close> is the completion order of the tasks in parallel mode (indices into
  \<open>consultas\<close>).  \<open>ThreadPoolExecutor\<close> raises \<open>ValueError\<close> for \<open>workers \<le> 0\<close>, which the
  handler of line 125 catches.
\<close>

definition executar_consultas ::
  "ambiente \<Rightarrow> consulta list \<Rightarrow> caminho \<Rightarrow> bool \<Rightarrow> int \<Rightarrow> nat list \<Rightarrow> mundo \<Rightarrow> (erro + resultado) \<times> mundo" where
  "executar_consultas amb consultas pasta_temp paralela workers agenda w =
     (case os_makedirs pasta_temp w of
        (Inl e, w1) \<Rightarrow> (Inl e, w1)
      | (Inr u, w1) \<Rightarrow>
          (case conectar_ao_banco amb w1 of
             (Inl e, w2) \<Rightarrow> (Inl e, w2)
           | (Inr conexao_persistente, w2) \<Rightarrow>
               (let st = (if paralela
                          then (if workers \<le> 0 then (vazio, w2)
                                else laco amb conexao_persistente pasta_temp (ordem agenda consultas) (vazio, w2))
                          else laco amb conexao_persistente pasta_temp consultas (vazio, w2))
                in (Inr (fst st), fechar_conexao conexao_persistente (snd st)))))"

section \<open>A concrete installation\<close>

text \<open>
  One database with a sales table of three rows, an empty purchases table, a stock table, a
  query that is not valid SQL, and a table that cannot be reached.  The type adjustment of
  the dataset \<open>Estoque\<close> drops the tenant column; the other datasets are left as they are.
\<close>

definition texto_padrao :: "valor \<Rightarrow> string option" where
  "texto_padrao v =
     (case v of Nulo \<Rightarrow> None | Texto s \<Rightarrow> Some s | Inteiro i \<Rightarrow> Some (py_str_int i)
      | Duracao n \<Rightarrow> Some (timedelta_str n))"

definition df_vendas :: frame where
  "df_vendas =
     \<lparr>colunas = [(''DataVenda'', Object), (''Valor'', Other)],
      linhas = [[(''DataVenda'', Texto ''2024-03-15''), (''Valor'', Inteiro 10)],
                [(''DataVenda'', Texto ''2024-04-02''), (''Valor'', Inteiro 20)],
                [(''DataVenda'', Texto ''2024-03-20''), (''Valor'', Inteiro 30)]]\<rparr>"

definition df_compras :: frame where
  "df_compras = \<lparr>colunas = [(''DataEmissaoNF'', Object)], linhas = []\<rparr>"

definition df_estoque :: frame where
  "df_estoque = \<lparr>colunas = [(''Produto'', Object)], linhas = [[(''Produto'', Texto ''A'')]]\<rparr>"

definition remover_coluna :: "string \<Rightarrow> frame \<Rightarrow> frame" where
  "remover_coluna k df =
     df\<lparr>colunas := filter (\<lambda>(c, t). c \<noteq> k) (colunas df),
        linhas := map (filter (\<lambda>(c, v). c \<noteq> k)) (linhas df)\<rparr>"

definition banco_exemplo :: "nat \<Rightarrow> string option \<Rightarrow> resposta" where
  "banco_exemplo n q =
     (if q = Some ''select * from vendas'' then Resultado df_vendas
      else if q = Some ''select * from compras'' then Resultado df_compras
      else if q = Some ''select * from estoque'' then Resultado df_estoque
      else if q = Some ''selec'' then Levanta (OutroErro ''ProgrammingError'')
      else Levanta OperationalError)"

definition amb_exemplo :: ambiente where
  "amb_exemplo =
     \<lparr>banco = banco_exemplo,
      falha_conexao = None,
      idemp = Inteiro 7,
      agora = ''04/11/2026 10:00:00'',
      como_texto = texto_padrao,
      ajustar_tipos_dados = (\<lambda>df nome. if nome = ''Estoque'' then Inr (remover_coluna ''idEmpresa'' df) else Inr df)\<rparr>"

definition mundo_inicial :: mundo where
  "mundo_inicial = \<lparr>pastas = [], arquivos = [], eventos = []\<rparr>"

definition c_vendas :: consulta where
  "c_vendas = [(''name'', ''Vendas''), (''query'', ''select * from vendas'')]"

definition c_compras :: consulta where
  "c_compras = [(''name'', ''Compras''), (''query'', ''select * from compras'')]"

definition c_estoque :: consulta where
  "c_estoque = [(''name'', ''Estoque''), (''query'', ''select * from estoque'')]"

definition c_invalida :: consulta where
  "c_invalida = [(''name'', ''Invalida''), (''query'', ''selec'')]"

definition c_inacessivel :: consulta where
  "c_inacessivel = [(''name'', ''Clientes''), (''query'', ''select * from clientes'')]"

text \<open>The file system after the sales dataset was written into an empty one.\<close>

definition mundo_vendas :: mundo where
  "mundo_vendas =
     \<lparr>pastas =
        [[''tmp''], [''tmp'', ''Vendas''],
         [''tmp'', ''Vendas'', ''idEmpresa=7'', ''Ano=2024'', ''Mes=04''],
         [''tmp'', ''Vendas'', ''idEmpresa=7''],
         [''tmp'', ''Vendas'', ''idEmpresa=7'', ''Ano=2024''],
         [''tmp'', ''Vendas'', ''idEmpresa=7'', ''Ano=2024'', ''Mes=03'']],
      arquivos =
        [([''tmp'', ''Vendas'', ''idEmpresa=7'', ''Ano=2024'', ''Mes=04''], ''part-0.parquet'',
          [[(''DataVenda'', Texto ''2024-04-02''), (''Valor'', Inteiro 20),
            (''DataHoraAtualizacao'', Texto ''04/11/2026 10:00:00''), (''idEmp'', Inteiro 7)]]),
         ([''tmp'', ''Vendas'', ''idEmpresa=7'', ''Ano=2024'', ''Mes=03''], ''part-1.parquet'',
          [[(''DataVenda'', Texto ''2024-03-15''), (''Valor'', Inteiro 10),
            (''DataHoraAtualizacao'', Texto ''04/11/2026 10:00:00''), (''idEmp'', Inteiro 7)],
           [(''DataVenda'', Texto ''2024-03-20''), (''Valor'', Inteiro 30),
            (''DataHoraAtualizacao'', Texto ''04/11/2026 10:00:00''), (''idEmp'', Inteiro 7)]])],
      eventos = []\<rparr>"

text \<open>A sales-time column of durations: half past two in the afternoon, one second and a half,
  one second before midnight of the day before, and a missing value.\<close>

definition df_horas :: frame where
  "df_horas =
     \<lparr>colunas = [(''HoraVenda'', Timedelta64)],
      linhas = [[(''HoraVenda'', Duracao 52200000000000)],
                [(''HoraVenda'', Duracao 1500000000)],
                [(''HoraVenda'', Duracao (- 1000000000))],
                [(''HoraVenda'', Nulo)]]\<rparr>"

section \<open>Predicates used in the statements\<close>

text \<open>The cells that a \<open>timedelta64\<close> column can hold.\<close>

definition e_duracao :: "valor \<Rightarrow> bool" where
  "e_duracao v = (case v of Nulo \<Rightarrow> True | Duracao n \<Rightarrow> True | _ \<Rightarrow> False)"

text \<open>The files of a world below a directory, and the rows they hold, each with the directory
  of its file.\<close>

definition arquivos_sob :: "caminho \<Rightarrow> mundo \<Rightarrow> (caminho \<times> string \<times> linha list) list" where
  "arquivos_sob p w = filter (\<lambda>(d, n, rs). prefix p d) (arquivos w)"

definition linhas_gravadas :: "(caminho \<times> string \<times> linha list) list \<Rightarrow> (caminho \<times> linha) list" where
  "linhas_gravadas fs = concat (map (\<lambda>(d, n, rs). map (Pair d) rs) fs)"

text \<open>An event on the session \<open>s\<close>: an execution on it, or a sleep.\<close>

definition na_sessao :: "nat \<Rightarrow> evento \<Rightarrow> bool" where
  "na_sessao s ev = (case ev of Executou s' q \<Rightarrow> s' = s | Dormiu n \<Rightarrow> True | _ \<Rightarrow> False)"

section \<open>Basic facts\<close>

lemma registrar_campos [simp]:
  "pastas (registrar ev w) = pastas w"
  "arquivos (registrar ev w) = arquivos w"
  "eventos (registrar ev w) = eventos w @ [ev]"
  by (simp_all add: registrar_def)

lemma chamadas_registrar [simp]:
  "chamadas (registrar (Executou con q) w) = Suc (chamadas w)"
  "chamadas (registrar (Dormiu s) w) = chamadas w"
  by (simp_all add: chamadas_def e_execucao_def)

lemma tentativa_levanta:
  "banco amb (chamadas w) query = Levanta e \<Longrightarrow>
   tentativa amb con nome query pasta w = (Inl e, registrar (Executou con query) w)"
  by (simp add: tentativa_def pd_read_sql_def)

section \<open>The retry bound\<close>

lemma repetir_sem_rede:
  assumes "\<forall>k. banco amb k query = Levanta OperationalError"
  shows "repetir n amb con nome query pasta w =
           (Inr ([], {}), w\<lparr>eventos := eventos w @ concat (replicate n [Executou con query, Dormiu 5])\<rparr>)"
proof (induction n arbitrary: w)
  case 0
  show ?case by simp
next
  case (Suc n)
  have t: "tentativa amb con nome query pasta w = (Inl OperationalError, registrar (Executou con query) w)"
    using assms by (simp add: tentativa_levanta)
  show ?case
    by (simp add: t Suc.IH time_sleep_def registrar_def)
qed

text \<open>
  C2.  When every execution on the session raises \<open>OperationalError\<close>, the query runner
  executes the query exactly five times, sleeps five seconds after each of the five attempts
  (so five seconds lie between any two attempts, and a fifth sleep follows the last one), and
  then returns the pair of the empty path and the empty partition set instead of raising.
  Nothing else happens: directories and files are untouched.
\<close>

theorem limite_de_tentativas:
  assumes "\<forall>k. banco amb k query = Levanta OperationalError"
  shows "executar_consulta amb con nome query pasta w =
           (Inr ([], {}),
            w\<lparr>eventos := eventos w @
               [Executou con query, Dormiu 5, Executou con query, Dormiu 5, Executou con query, Dormiu 5,
                Executou con query, Dormiu 5, Executou con query, Dormiu 5]\<rparr>)"
  using repetir_sem_rede [OF assms, of retries con nome pasta w]
  by (simp add: executar_consulta_def retries_def eval_nat_numeral)

theorem limite_de_tentativas_witness:
  "(\<forall>k. banco amb_exemplo k (Some ''select * from clientes'') = Levanta OperationalError)
   \<and> executar_consulta amb_exemplo 0 ''Clientes'' (Some ''select * from clientes'') [''tmp''] mundo_inicial =
       (Inr ([], {}),
        \<lparr>pastas = [], arquivos = [],
         eventos = [Executou 0 (Some ''select * from clientes''), Dormiu 5,
                    Executou 0 (Some ''select * from clientes''), Dormiu 5,
                    Executou 0 (Some ''select * from clientes''), Dormiu 5,
                    Executou 0 (Some ''select * from clientes''), Dormiu 5,
                    Executou 0 (Some ''select * from clientes''), Dormiu 5]\<rparr>)"
proof -
  have h: "\<forall>k. banco amb_exemplo k (Some ''select * from clientes'') = Levanta OperationalError"
    by (simp add: amb_exemplo_def banco_exemplo_def)
  show ?thesis
    using h limite_de_tentativas [OF h, of 0 "''Clientes''" "[''tmp'']" mundo_inicial]
    by (simp add: mundo_inicial_def)
qed

section \<open>Failures that are not retried, and empty results\<close>

lemma tentativa_vazio:
  "banco amb (chamadas w) query = Resultado df \<Longrightarrow> df_empty df \<Longrightarrow>
   tentativa amb con nome query pasta w = (Inr ([], {}), registrar (Executou con query) w)"
  by (simp add: tentativa_def pd_read_sql_def)

lemma tentativa_processa:
  "banco amb (chamadas w) query = Resultado df \<Longrightarrow> \<not> df_empty df \<Longrightarrow>
   tentativa amb con nome query pasta w = processar_dados amb df nome pasta (registrar (Executou con query) w)"
  by (simp add: tentativa_def pd_read_sql_def)

lemma processar_dados_Inr: "\<exists>r. fst (processar_dados amb df nome pasta w) = Inr r"
  by (simp add: processar_dados_def split: prod.splits sum.splits)

lemma processar_dados_falha:
  "fst (processar_dados_corpo amb df nome pasta w) = Inl e \<Longrightarrow>
   processar_dados amb df nome pasta w = (Inr ([], {}), snd (processar_dados_corpo amb df nome pasta w))"
  by (cases "processar_dados_corpo amb df nome pasta w") (auto simp: processar_dados_def)

lemma repetir_Inr: "\<exists>r. fst (repetir n amb con nome query pasta w) = Inr r"
proof (induction n arbitrary: w)
  case 0
  show ?case by simp
next
  case (Suc n)
  show ?case
  proof (cases "tentativa amb con nome query pasta w")
    case (Pair x w1)
    show ?thesis
    proof (cases x)
      case (Inl e)
      with Pair Suc.IH [of "time_sleep 5 w1"] show ?thesis by simp
    next
      case (Inr r)
      with Pair show ?thesis by simp
    qed
  qed
qed

lemma executar_consulta_Inr: "\<exists>r. fst (executar_consulta amb con nome query pasta w) = Inr r"
  unfolding executar_consulta_def by (rule repetir_Inr)

lemma repetir_primeira:
  "tentativa amb con nome query pasta w = (Inr r, w1) \<Longrightarrow>
   repetir (Suc k) amb con nome query pasta w = (Inr r, w1)"
  by simp

lemma repetir_fatal:
  "tentativa amb con nome query pasta w = (Inl e, w1) \<Longrightarrow> e \<noteq> OperationalError \<Longrightarrow>
   repetir (Suc k) amb con nome query pasta w = (Inr ([], {}), w1)"
  by simp

lemma executar_consulta_Suc:
  "executar_consulta amb con nome query pasta w = repetir (Suc 4) amb con nome query pasta w"
  by (simp add: executar_consulta_def retries_def eval_nat_numeral)

lemma guardar_vazio [simp]: "guardar (n, Some [], ps) acc = acc"
  by (simp add: guardar_def)

lemma laco_sentinela:
  "executar_consulta amb con (nome_da_consulta c) (map_of c ''query'') pasta w = (Inr ([], {}), w1) \<Longrightarrow>
   laco amb con pasta (c # cs) (acc, w) = laco amb con pasta cs (acc, w1)"
  by (simp add: processa_consulta_def Let_def)

text \<open>
  C5.  When the execution of the query raises anything but \<open>OperationalError\<close>, the runner
  stops at once, whatever the number of attempts left: one execution, no sleep, the pair of
  the empty path and the empty partition set as result, and no exception.  The loop of the
  orchestrator goes on with the remaining queries and its two maps are as before.
\<close>

theorem falha_sem_retentativa:
  assumes "banco amb (chamadas w) (map_of c ''query'') = Levanta e" and "e \<noteq> OperationalError"
  shows "repetir (Suc k) amb con nome (map_of c ''query'') pasta w =
           (Inr ([], {}), registrar (Executou con (map_of c ''query'')) w)
       \<and> executar_consulta amb con nome (map_of c ''query'') pasta w =
           (Inr ([], {}), registrar (Executou con (map_of c ''query'')) w)
       \<and> laco amb con pasta (c # cs) (acc, w) =
           laco amb con pasta cs (acc, registrar (Executou con (map_of c ''query'')) w)"
proof -
  have t: "\<And>nome. tentativa amb con nome (map_of c ''query'') pasta w =
             (Inl e, registrar (Executou con (map_of c ''query'')) w)"
    using assms(1) by (rule tentativa_levanta)
  have a: "\<And>nome k. repetir (Suc k) amb con nome (map_of c ''query'') pasta w =
           (Inr ([], {}), registrar (Executou con (map_of c ''query'')) w)"
    using t assms(2) by (rule repetir_fatal)
  have b: "\<And>nome. executar_consulta amb con nome (map_of c ''query'') pasta w =
           (Inr ([], {}), registrar (Executou con (map_of c ''query'')) w)"
    by (simp only: executar_consulta_Suc a)
  show ?thesis using a b laco_sentinela [OF b] by blast
qed


theorem falha_sem_retentativa_witness:
  "banco amb_exemplo (chamadas mundo_inicial) (map_of c_invalida ''query'') = Levanta (OutroErro ''ProgrammingError'')
   \<and> OutroErro ''ProgrammingError'' \<noteq> OperationalError
   \<and> (repetir (Suc 4) amb_exemplo 0 ''Invalida'' (map_of c_invalida ''query'') [''tmp''] mundo_inicial =
           (Inr ([], {}), registrar (Executou 0 (map_of c_invalida ''query'')) mundo_inicial)
       \<and> executar_consulta amb_exemplo 0 ''Invalida'' (map_of c_invalida ''query'') [''tmp''] mundo_inicial =
           (Inr ([], {}), registrar (Executou 0 (map_of c_invalida ''query'')) mundo_inicial)
       \<and> laco amb_exemplo 0 [''tmp''] (c_invalida # [c_vendas]) (vazio, mundo_inicial) =
           laco amb_exemplo 0 [''tmp''] [c_vendas] (vazio, registrar (Executou 0 (map_of c_invalida ''query'')) mundo_inicial))
   \<and> eventos (registrar (Executou 0 (map_of c_invalida ''query'')) mundo_inicial) = [Executou 0 (Some ''selec'')]
   \<and> resultados (fst (laco amb_exemplo 0 [''tmp''] [c_invalida, c_vendas] (vazio, mundo_inicial))) ''Vendas''
        = Some [''tmp'', ''Vendas'']
   \<and> resultados (fst (laco amb_exemplo 0 [''tmp''] [c_invalida, c_vendas] (vazio, mundo_inicial))) ''Invalida''
        = None"
proof -
  have h1: "banco amb_exemplo (chamadas mundo_inicial) (map_of c_invalida ''query'') = Levanta (OutroErro ''ProgrammingError'')"
    by code_simp
  have h2: "OutroErro ''ProgrammingError'' \<noteq> OperationalError" by simp
  note t = falha_sem_retentativa [OF h1 h2, of 4 0 "''Invalida''" "[''tmp'']" "[c_vendas]" vazio]
  have e1: "eventos (registrar (Executou 0 (map_of c_invalida ''query'')) mundo_inicial) = [Executou 0 (Some ''selec'')]"
    by code_simp
  have e2: "resultados (fst (laco amb_exemplo 0 [''tmp''] [c_invalida, c_vendas] (vazio, mundo_inicial))) ''Vendas''
        = Some [''tmp'', ''Vendas'']"
    by code_simp
  have e3: "resultados (fst (laco amb_exemplo 0 [''tmp''] [c_invalida, c_vendas] (vazio, mundo_inicial))) ''Invalida''
        = None"
    by code_simp
  show ?thesis by (intro conjI h1 h2 t e1 e2 e3)
qed

lemma executar_consulta_vazio:
  assumes "banco amb (chamadas w) query = Resultado df" and "df_empty df"
  shows "executar_consulta amb con nome query pasta w = (Inr ([], {}), registrar (Executou con query) w)"
  unfolding executar_consulta_Suc
  by (rule repetir_primeira) (rule tentativa_vazio [OF assms])

lemma processa_nome: "fst (fst (processa_consulta amb con pasta c w)) = nome_da_consulta c"
  by (simp add: processa_consulta_def Let_def split: prod.splits sum.splits)

lemma guardar_outro:
  "fst t \<noteq> n \<Longrightarrow> resultados (guardar t acc) n = resultados acc n
                   \<and> particoes_criadas (guardar t acc) n = particoes_criadas acc n"
  by (cases t) (simp add: guardar_def split: option.splits)

lemma laco_sem_entrada:
  assumes "\<forall>c\<in>set cs. nome_da_consulta c = n \<longrightarrow>
             (\<forall>k. \<exists>df. banco amb k (map_of c ''query'') = Resultado df \<and> df_empty df)"
      and "resultados acc n = None" and "particoes_criadas acc n = None"
  shows "resultados (fst (laco amb con pasta cs (acc, w))) n = None
       \<and> particoes_criadas (fst (laco amb con pasta cs (acc, w))) n = None"
  using assms
proof (induction cs arbitrary: acc w)
  case Nil
  then show ?case by simp
next
  case (Cons c cs)
  obtain t w1 where p: "processa_consulta amb con pasta c w = (t, w1)"
    by (cases "processa_consulta amb con pasta c w")
  have g: "resultados (guardar t acc) n = None \<and> particoes_criadas (guardar t acc) n = None"
  proof (cases "nome_da_consulta c = n")
    case True
    with Cons.prems(1) obtain df where
      d: "banco amb (chamadas w) (map_of c ''query'') = Resultado df" "df_empty df"
      by (metis list.set_intros(1))
    have "t = (nome_da_consulta c, Some [], {})"
      using p executar_consulta_vazio [OF d, of con "nome_da_consulta c" pasta]
      by (simp add: processa_consulta_def Let_def)
    then show ?thesis using Cons.prems(2,3) by simp
  next
    case False
    have "fst t = nome_da_consulta c" using p processa_nome [of amb con pasta c w] by simp
    with False have "fst t \<noteq> n" by simp
    from guardar_outro [OF this, of acc] Cons.prems(2,3) show ?thesis by simp
  qed
  have "laco amb con pasta (c # cs) (acc, w) = laco amb con pasta cs (guardar t acc, w1)"
    using p by simp
  moreover have "\<forall>c\<in>set cs. nome_da_consulta c = n \<longrightarrow>
             (\<forall>k. \<exists>df. banco amb k (map_of c ''query'') = Resultado df \<and> df_empty df)"
    using Cons.prems(1) by simp
  ultimately show ?case using Cons.IH [of "guardar t acc" w1] g by simp
qed

lemma set_ordem: "set (ordem agenda xs) \<subseteq> set xs"
  by (auto simp: ordem_def)

lemma executar_consultas_Inr:
  "falha_conexao amb = None \<Longrightarrow> fst (os_makedirs pasta w) = Inr () \<Longrightarrow>
   \<exists>r. fst (executar_consultas amb consultas pasta paralela workers agenda w) = Inr r"
  by (cases "os_makedirs pasta w")
     (simp add: executar_consultas_def conectar_ao_banco_def Let_def)

text \<open>
  C6.  A query whose result is empty: the runner returns the pair of the empty path and the
  empty partition set without raising, and only the trace changes (no directory, no file).
  When every query of that name in the list has an empty result, the run result has no entry
  for the name in \<open>resultados\<close> nor in \<open>particoes_criadas\<close>, in sequential and in
  parallel mode; and the run returns its result whenever the temporary directory can be made
  and the session opened.
\<close>

theorem resultado_vazio_sem_entrada:
  assumes "c \<in> set consultas"
      and "\<forall>c'\<in>set consultas. nome_da_consulta c' = nome_da_consulta c \<longrightarrow>
             (\<forall>k. \<exists>df. banco amb k (map_of c' ''query'') = Resultado df \<and> df_empty df)"
  shows "executar_consulta amb con (nome_da_consulta c) (map_of c ''query'') pasta w' =
           (Inr ([], {}), registrar (Executou con (map_of c ''query'')) w')
       \<and> (\<forall>r w1. executar_consultas amb consultas pasta paralela workers agenda w = (Inr r, w1) \<longrightarrow>
             resultados r (nome_da_consulta c) = None \<and> particoes_criadas r (nome_da_consulta c) = None)
       \<and> (falha_conexao amb = None \<and> fst (os_makedirs pasta w) = Inr () \<longrightarrow>
             (\<exists>r. fst (executar_consultas amb consultas pasta paralela workers agenda w) = Inr r))"
proof (intro conjI allI impI)
  from assms obtain df where
    d: "banco amb (chamadas w') (map_of c ''query'') = Resultado df" "df_empty df"
    by blast
  show "executar_consulta amb con (nome_da_consulta c) (map_of c ''query'') pasta w' =
           (Inr ([], {}), registrar (Executou con (map_of c ''query'')) w')"
    by (rule executar_consulta_vazio [OF d])
next
  fix r w1
  assume run: "executar_consultas amb consultas pasta paralela workers agenda w = (Inr r, w1)"
  let ?n = "nome_da_consulta c"
  have sub: "\<And>cs. set cs \<subseteq> set consultas \<Longrightarrow> \<forall>c'\<in>set cs. nome_da_consulta c' = ?n \<longrightarrow>
             (\<forall>k. \<exists>df. banco amb k (map_of c' ''query'') = Resultado df \<and> df_empty df)"
    using assms(2) by blast
  have l: "\<And>cs con w2. set cs \<subseteq> set consultas \<Longrightarrow>
            resultados (fst (laco amb con pasta cs (vazio, w2))) ?n = None
          \<and> particoes_criadas (fst (laco amb con pasta cs (vazio, w2))) ?n = None"
    by (rule laco_sem_entrada [OF sub]) (simp_all add: vazio_def)
  have v: "resultados vazio ?n = None \<and> particoes_criadas vazio ?n = None"
    by (simp add: vazio_def)
  from run show "resultados r ?n = None"
    using l [OF set_ordem] l [OF subset_refl] v
    by (auto simp: executar_consultas_def Let_def split: prod.splits sum.splits if_splits)
  from run show "particoes_criadas r ?n = None"
    using l [OF set_ordem] l [OF subset_refl] v
    by (auto simp: executar_consultas_def Let_def split: prod.splits sum.splits if_splits)
next
  assume "falha_conexao amb = None \<and> fst (os_makedirs pasta w) = Inr ()"
  then show "\<exists>r. fst (executar_consultas amb consultas pasta paralela workers agenda w) = Inr r"
    by (simp add: executar_consultas_Inr)
qed

theorem resultado_vazio_sem_entrada_witness:
  "c_compras \<in> set [c_vendas, c_compras]
   \<and> nome_da_consulta c_vendas \<noteq> nome_da_consulta c_compras
   \<and> (\<forall>k. banco amb_exemplo k (map_of c_compras ''query'') = Resultado df_compras)
   \<and> df_empty df_compras
   \<and> executar_consulta amb_exemplo 0 (nome_da_consulta c_compras) (map_of c_compras ''query'') [''tmp''] mundo_inicial =
       (Inr ([], {}), registrar (Executou 0 (map_of c_compras ''query'')) mundo_inicial)
   \<and> (\<exists>r w1. executar_consultas amb_exemplo [c_vendas, c_compras] [''tmp''] False 4 [] mundo_inicial = (Inr r, w1)
         \<and> resultados r ''Compras'' = None \<and> particoes_criadas r ''Compras'' = None
         \<and> resultados r ''Vendas'' = Some [''tmp'', ''Vendas''])"
proof -
  have h1: "c_compras \<in> set [c_vendas, c_compras]" by simp
  have h2: "nome_da_consulta c_vendas \<noteq> nome_da_consulta c_compras" by code_simp
  have h3: "\<forall>k. banco amb_exemplo k (map_of c_compras ''query'') = Resultado df_compras"
    by (simp add: amb_exemplo_def banco_exemplo_def c_compras_def)
  have h4: "df_empty df_compras" by code_simp
  have hb: "\<forall>c'\<in>set [c_vendas, c_compras]. nome_da_consulta c' = nome_da_consulta c_compras \<longrightarrow>
             (\<forall>k. \<exists>df. banco amb_exemplo k (map_of c' ''query'') = Resultado df \<and> df_empty df)"
    using h2 h3 h4 by auto
  note t = resultado_vazio_sem_entrada [OF h1 hb, where con = 0 and pasta = "[''tmp'']"
      and w' = mundo_inicial and w = mundo_inicial and paralela = False and workers = 4 and agenda = "[]"]
  have n: "nome_da_consulta c_compras = ''Compras''" by code_simp
  have ok: "falha_conexao amb_exemplo = None \<and> fst (os_makedirs [''tmp''] mundo_inicial) = Inr ()"
    by code_simp
  from t ok obtain r where "fst (executar_consultas amb_exemplo [c_vendas, c_compras] [''tmp''] False 4 [] mundo_inicial) = Inr r"
    by blast
  then obtain w1 where run: "executar_consultas amb_exemplo [c_vendas, c_compras] [''tmp''] False 4 [] mundo_inicial = (Inr r, w1)"
    by (cases "executar_consultas amb_exemplo [c_vendas, c_compras] [''tmp''] False 4 [] mundo_inicial") simp
  from t run n have none: "resultados r ''Compras'' = None \<and> particoes_criadas r ''Compras'' = None"
    by metis
  have "(case executar_consultas amb_exemplo [c_vendas, c_compras] [''tmp''] False 4 [] mundo_inicial of
           (Inr r, w) \<Rightarrow> resultados r ''Vendas'' | (Inl e, w) \<Rightarrow> None) = Some [''tmp'', ''Vendas'']"
    by code_simp
  with run have v: "resultados r ''Vendas'' = Some [''tmp'', ''Vendas'']" by simp
  from run none v have ex: "\<exists>r w1. executar_consultas amb_exemplo [c_vendas, c_compras] [''tmp''] False 4 [] mundo_inicial = (Inr r, w1)
         \<and> resultados r ''Compras'' = None \<and> particoes_criadas r ''Compras'' = None
         \<and> resultados r ''Vendas'' = Some [''tmp'', ''Vendas'']"
    by blast
  show ?thesis by (intro conjI h1 h2 h3 h4 ex t [THEN conjunct1])
qed


section \<open>Failures of the materialiser\<close>

lemma os_makedirs_arquivos [simp]: "arquivos (snd (os_makedirs p w)) = arquivos w"
  by (simp add: os_makedirs_def criar_pastas_def)

lemma os_makedirs_eventos [simp]: "eventos (snd (os_makedirs p w)) = eventos w"
  by (simp add: os_makedirs_def criar_pastas_def)

lemma corpo_quadro_falha:
  "quadro_final amb df nome = Inl e \<Longrightarrow> \<exists>e'. fst (processar_dados_corpo amb df nome pasta w) = Inl e'"
  by (cases "os_makedirs pasta w") (auto simp: processar_dados_corpo_def Let_def split: sum.splits)

lemma quadro_sem_id_empresa:
  assumes "normalizar_hora df = Inr df1"
      and "ajustar_tipos_dados amb (derivar_ano_mes amb (escolher_coluna_data nome df) (aumentar amb df1)) nome = Inr df2"
      and "''idEmpresa'' \<notin> set (nomes df2)"
  shows "quadro_final amb df nome = Inl ValueError"
  using assms by (simp add: quadro_final_def)

lemma corpo_sem_id_empresa:
  assumes "quadro_final amb df nome = Inl e" and "os_makedirs pasta w = (Inr (), w1)"
  shows "processar_dados_corpo amb df nome pasta w = (Inl e, w1)"
  using assms by (simp add: processar_dados_corpo_def Let_def)

text \<open>
  C4.  When the frame that \<open>ajustar_tipos_dados\<close> returns has no column \<open>idEmpresa\<close>, the
  body of \<open>processar_dados\<close> raises \<open>ValueError\<close> (line 213) after the temporary directory
  was made, no file is written, the runner's result for that query is the pair of the empty
  path and the empty partition set, and the loop of the orchestrator goes on with the other
  queries, its maps unchanged.
\<close>

theorem validacao_id_empresa:
  assumes "banco amb (chamadas w) (map_of c ''query'') = Resultado df" and "\<not> df_empty df"
      and "normalizar_hora df = Inr df1"
      and "ajustar_tipos_dados amb
             (derivar_ano_mes amb (escolher_coluna_data (nome_da_consulta c) df) (aumentar amb df1))
             (nome_da_consulta c) = Inr df2"
      and "''idEmpresa'' \<notin> set (nomes df2)"
      and "os_makedirs pasta (registrar (Executou con (map_of c ''query'')) w) = (Inr (), w1)"
  shows "processar_dados_corpo amb df (nome_da_consulta c) pasta (registrar (Executou con (map_of c ''query'')) w)
           = (Inl ValueError, w1)
       \<and> arquivos w1 = arquivos w
       \<and> executar_consulta amb con (nome_da_consulta c) (map_of c ''query'') pasta w = (Inr ([], {}), w1)
       \<and> laco amb con pasta (c # cs) (acc, w) = laco amb con pasta cs (acc, w1)"
proof -
  let ?wq = "registrar (Executou con (map_of c ''query'')) w"
  have q: "quadro_final amb df (nome_da_consulta c) = Inl ValueError"
    using assms(3,4,5) by (rule quadro_sem_id_empresa)
  have b: "processar_dados_corpo amb df (nome_da_consulta c) pasta ?wq = (Inl ValueError, w1)"
    using q assms(6) by (rule corpo_sem_id_empresa)
  have a: "arquivos w1 = arquivos w"
    using os_makedirs_arquivos [of pasta ?wq] assms(6) by simp
  have p: "processar_dados amb df (nome_da_consulta c) pasta ?wq = (Inr ([], {}), w1)"
    using processar_dados_falha [of amb df "nome_da_consulta c" pasta ?wq ValueError] b by simp
  have t: "tentativa amb con (nome_da_consulta c) (map_of c ''query'') pasta w = (Inr ([], {}), w1)"
    using tentativa_processa [OF assms(1,2)] p by simp
  have e: "executar_consulta amb con (nome_da_consulta c) (map_of c ''query'') pasta w = (Inr ([], {}), w1)"
    unfolding executar_consulta_Suc using t by (rule repetir_primeira)
  show ?thesis using b a e laco_sentinela [OF e] by blast
qed

theorem validacao_id_empresa_witness:
  "banco amb_exemplo (chamadas mundo_inicial) (map_of c_estoque ''query'') = Resultado df_estoque
   \<and> \<not> df_empty df_estoque
   \<and> normalizar_hora df_estoque = Inr df_estoque
   \<and> ajustar_tipos_dados amb_exemplo
        (derivar_ano_mes amb_exemplo (escolher_coluna_data (nome_da_consulta c_estoque) df_estoque)
           (aumentar amb_exemplo df_estoque))
        (nome_da_consulta c_estoque)
       = Inr \<lparr>colunas = [(''Produto'', Object), (''DataHoraAtualizacao'', Utf8), (''idEmp'', Other)],
              linhas = [[(''Produto'', Texto ''A''), (''DataHoraAtualizacao'', Texto ''04/11/2026 10:00:00''),
                         (''idEmp'', Inteiro 7)]]\<rparr>
   \<and> os_makedirs [''tmp''] (registrar (Executou 0 (map_of c_estoque ''query'')) mundo_inicial)
       = (Inr (), \<lparr>pastas = [[''tmp'']], arquivos = [], eventos = [Executou 0 (Some ''select * from estoque'')]\<rparr>)
   \<and> (processar_dados_corpo amb_exemplo df_estoque (nome_da_consulta c_estoque) [''tmp'']
          (registrar (Executou 0 (map_of c_estoque ''query'')) mundo_inicial)
        = (Inl ValueError, \<lparr>pastas = [[''tmp'']], arquivos = [], eventos = [Executou 0 (Some ''select * from estoque'')]\<rparr>)
      \<and> arquivos \<lparr>pastas = [[''tmp'']], arquivos = [], eventos = [Executou 0 (Some ''select * from estoque'')]\<rparr>
          = arquivos mundo_inicial
      \<and> executar_consulta amb_exemplo 0 (nome_da_consulta c_estoque) (map_of c_estoque ''query'') [''tmp''] mundo_inicial
          = (Inr ([], {}), \<lparr>pastas = [[''tmp'']], arquivos = [], eventos = [Executou 0 (Some ''select * from estoque'')]\<rparr>)
      \<and> laco amb_exemplo 0 [''tmp''] (c_estoque # [c_vendas]) (vazio, mundo_inicial)
          = laco amb_exemplo 0 [''tmp''] [c_vendas]
              (vazio, \<lparr>pastas = [[''tmp'']], arquivos = [], eventos = [Executou 0 (Some ''select * from estoque'')]\<rparr>))
   \<and> resultados (fst (laco amb_exemplo 0 [''tmp''] [c_estoque, c_vendas] (vazio, mundo_inicial))) ''Estoque'' = None
   \<and> resultados (fst (laco amb_exemplo 0 [''tmp''] [c_estoque, c_vendas] (vazio, mundo_inicial))) ''Vendas''
       = Some [''tmp'', ''Vendas'']"
proof -
  let ?df2 = "\<lparr>colunas = [(''Produto'', Object), (''DataHoraAtualizacao'', Utf8), (''idEmp'', Other)],
              linhas = [[(''Produto'', Texto ''A''), (''DataHoraAtualizacao'', Texto ''04/11/2026 10:00:00''),
                         (''idEmp'', Inteiro 7)]]\<rparr>"
  have h1: "banco amb_exemplo (chamadas mundo_inicial) (map_of c_estoque ''query'') = Resultado df_estoque"
    by code_simp
  have h2: "\<not> df_empty df_estoque" by code_simp
  have h3: "normalizar_hora df_estoque = Inr df_estoque" by code_simp
  have h4: "ajustar_tipos_dados amb_exemplo
        (derivar_ano_mes amb_exemplo (escolher_coluna_data (nome_da_consulta c_estoque) df_estoque)
           (aumentar amb_exemplo df_estoque))
        (nome_da_consulta c_estoque) = Inr ?df2"
    by code_simp
  have h5: "''idEmpresa'' \<notin> set (nomes ?df2)" by code_simp
  have h6: "os_makedirs [''tmp''] (registrar (Executou 0 (map_of c_estoque ''query'')) mundo_inicial)
       = (Inr (), \<lparr>pastas = [[''tmp'']], arquivos = [], eventos = [Executou 0 (Some ''select * from estoque'')]\<rparr>)"
    by code_simp
  note t = validacao_id_empresa [OF h1 h2 h3 h4 h5 h6, where cs = "[c_vendas]" and acc = vazio]
  have e1: "resultados (fst (laco amb_exemplo 0 [''tmp''] [c_estoque, c_vendas] (vazio, mundo_inicial))) ''Estoque'' = None"
    by code_simp
  have e2: "resultados (fst (laco amb_exemplo 0 [''tmp''] [c_estoque, c_vendas] (vazio, mundo_inicial))) ''Vendas''
       = Some [''tmp'', ''Vendas'']"
    by code_simp
  show ?thesis by (intro conjI h1 h2 h3 h4 h6 t e1 e2)
qed

text \<open>
  C10.  \<open>processar_dados\<close> always returns a value: every exception of its body, the
  \<open>ValueError\<close> of line 213 included, becomes the pair of the empty string and the empty set.
  So the runner returns the same value for a query whose materialisation failed as for a
  query whose result is empty.
\<close>

theorem processar_dados_nunca_levanta:
  "(\<exists>r. fst (processar_dados amb df nome pasta w) = Inr r)
   \<and> (\<forall>e. fst (processar_dados_corpo amb df nome pasta w) = Inl e \<longrightarrow>
          fst (processar_dados amb df nome pasta w) = Inr ([], {}))
   \<and> (quadro_final amb df nome = Inl ValueError \<longrightarrow>
          fst (processar_dados amb df nome pasta w) = Inr ([], {}))
   \<and> (banco amb (chamadas w) query = Resultado df \<and> \<not> df_empty df
        \<and> fst (processar_dados_corpo amb df nome pasta (registrar (Executou con query) w)) = Inl e'
        \<and> banco amb2 (chamadas w2) query2 = Resultado df2 \<and> df_empty df2 \<longrightarrow>
          fst (executar_consulta amb con nome query pasta w) = Inr ([], {})
        \<and> fst (executar_consulta amb2 con2 nome2 query2 pasta2 w2) = Inr ([], {}))"
proof (intro conjI allI impI)
  show "\<exists>r. fst (processar_dados amb df nome pasta w) = Inr r"
    by (rule processar_dados_Inr)
next
  fix e
  assume "fst (processar_dados_corpo amb df nome pasta w) = Inl e"
  then show "fst (processar_dados amb df nome pasta w) = Inr ([], {})"
    by (simp add: processar_dados_falha)
next
  assume "quadro_final amb df nome = Inl ValueError"
  then obtain e where "fst (processar_dados_corpo amb df nome pasta w) = Inl e"
    using corpo_quadro_falha by blast
  then show "fst (processar_dados amb df nome pasta w) = Inr ([], {})"
    by (simp add: processar_dados_falha)
next
  assume h: "banco amb (chamadas w) query = Resultado df \<and> \<not> df_empty df
        \<and> fst (processar_dados_corpo amb df nome pasta (registrar (Executou con query) w)) = Inl e'
        \<and> banco amb2 (chamadas w2) query2 = Resultado df2 \<and> df_empty df2"
  then have "tentativa amb con nome query pasta w =
      (Inr ([], {}), snd (processar_dados_corpo amb df nome pasta (registrar (Executou con query) w)))"
    by (simp add: tentativa_processa processar_dados_falha)
  then have "repetir (Suc 4) amb con nome query pasta w =
      (Inr ([], {}), snd (processar_dados_corpo amb df nome pasta (registrar (Executou con query) w)))"
    by (rule repetir_primeira)
  then show "fst (executar_consulta amb con nome query pasta w) = Inr ([], {})"
    by (simp only: executar_consulta_Suc fst_conv)
next
  assume h: "banco amb (chamadas w) query = Resultado df \<and> \<not> df_empty df
        \<and> fst (processar_dados_corpo amb df nome pasta (registrar (Executou con query) w)) = Inl e'
        \<and> banco amb2 (chamadas w2) query2 = Resultado df2 \<and> df_empty df2"
  then show "fst (executar_consulta amb2 con2 nome2 query2 pasta2 w2) = Inr ([], {})"
    by (simp add: executar_consulta_vazio)
qed

theorem processar_dados_nunca_levanta_witness:
  "fst (processar_dados_corpo amb_exemplo df_estoque ''Estoque'' [''tmp''] mundo_inicial) = Inl ValueError
   \<and> quadro_final amb_exemplo df_estoque ''Estoque'' = Inl ValueError
   \<and> fst (processar_dados amb_exemplo df_estoque ''Estoque'' [''tmp''] mundo_inicial) = Inr ([], {})
   \<and> banco amb_exemplo (chamadas mundo_inicial) (Some ''select * from estoque'') = Resultado df_estoque
   \<and> \<not> df_empty df_estoque
   \<and> fst (processar_dados_corpo amb_exemplo df_estoque ''Estoque'' [''tmp'']
            (registrar (Executou 0 (Some ''select * from estoque'')) mundo_inicial)) = Inl ValueError
   \<and> banco amb_exemplo (chamadas mundo_inicial) (Some ''select * from compras'') = Resultado df_compras
   \<and> df_empty df_compras
   \<and> fst (executar_consulta amb_exemplo 0 ''Estoque'' (Some ''select * from estoque'') [''tmp''] mundo_inicial)
       = Inr ([], {})
   \<and> fst (executar_consulta amb_exemplo 0 ''Compras'' (Some ''select * from compras'') [''tmp''] mundo_inicial)
       = Inr ([], {})"
proof -
  have h1: "fst (processar_dados_corpo amb_exemplo df_estoque ''Estoque'' [''tmp''] mundo_inicial) = Inl ValueError"
    by code_simp
  have h2: "quadro_final amb_exemplo df_estoque ''Estoque'' = Inl ValueError" by code_simp
  have h3: "banco amb_exemplo (chamadas mundo_inicial) (Some ''select * from estoque'') = Resultado df_estoque"
    by code_simp
  have h4: "\<not> df_empty df_estoque" by code_simp
  have h5: "fst (processar_dados_corpo amb_exemplo df_estoque ''Estoque'' [''tmp'']
            (registrar (Executou 0 (Some ''select * from estoque'')) mundo_inicial)) = Inl ValueError"
    by code_simp
  have h6: "banco amb_exemplo (chamadas mundo_inicial) (Some ''select * from compras'') = Resultado df_compras"
    by code_simp
  have h7: "df_empty df_compras" by code_simp
  note t = processar_dados_nunca_levanta [where amb = amb_exemplo and df = df_estoque and nome = "''Estoque''"
      and pasta = "[''tmp'']" and w = mundo_inicial and query = "Some ''select * from estoque''" and con = 0
      and e' = ValueError and ?amb2.0 = amb_exemplo and ?w2.0 = mundo_inicial
      and ?query2.0 = "Some ''select * from compras''" and ?df2.0 = df_compras
      and ?con2.0 = 0 and ?nome2.0 = "''Compras''" and ?pasta2.0 = "[''tmp'']"]
  from t h1 have c1: "fst (processar_dados amb_exemplo df_estoque ''Estoque'' [''tmp''] mundo_inicial) = Inr ([], {})"
    by blast
  from t h3 h4 h5 h6 h7 have c2:
    "fst (executar_consulta amb_exemplo 0 ''Estoque'' (Some ''select * from estoque'') [''tmp''] mundo_inicial)
       = Inr ([], {})
     \<and> fst (executar_consulta amb_exemplo 0 ''Compras'' (Some ''select * from compras'') [''tmp''] mundo_inicial)
       = Inr ([], {})"
    by blast
  show ?thesis by (intro conjI h1 h2 c1 h3 h4 h5 h6 h7 c2 [THEN conjunct1] c2 [THEN conjunct2])
qed

section \<open>Partition keys\<close>

lemma map_of_atualizar: "map_of (atualizar k v r) k' = (if k' = k then Some v else map_of r k')"
  by (induction r) auto

lemma celula_atualizar [simp]: "celula (atualizar k v r) k' = (if k' = k then v else celula r k')"
  by (simp add: celula_def map_of_atualizar)

text \<open>
  C7.  The dataset \<open>Vendas\<close> takes the column \<open>DataVenda\<close> and the dataset \<open>Compras\<close> the
  column \<open>DataEmissaoNF\<close>, when the result has it; no other dataset has a date column.  The
  partition columns are \<open>idEmpresa\<close> alone without a date column and \<open>idEmpresa\<close>,
  \<open>Ano\<close>, \<open>Mes\<close> with one.  In every row \<open>Ano\<close> is the four characters from offset 0
  and \<open>Mes\<close> the two characters from offset 5 of the text of the date cell, and both are
  null when the date is null.
\<close>

theorem derivacao_chave_particao:
  "escolher_coluna_data ''Vendas'' df = (if ''DataVenda'' \<in> set (nomes df) then Some ''DataVenda'' else None)
   \<and> escolher_coluna_data ''Compras'' df =
       (if ''DataEmissaoNF'' \<in> set (nomes df) then Some ''DataEmissaoNF'' else None)
   \<and> (nome \<noteq> ''Vendas'' \<and> nome \<noteq> ''Compras'' \<longrightarrow> escolher_coluna_data nome df = None)
   \<and> partition_cols (escolher_coluna_data nome df) =
       (if escolher_coluna_data nome df = None then [''idEmpresa''] else [''idEmpresa'', ''Ano'', ''Mes''])
   \<and> (escolher_coluna_data nome df = Some c \<longrightarrow>
        map (\<lambda>r. (celula r ''Ano'', celula r ''Mes'')) (linhas (derivar_ano_mes amb (Some c) df2)) =
        map (\<lambda>r. case como_texto amb (celula r c) of
                    None \<Rightarrow> (Nulo, Nulo)
                  | Some s \<Rightarrow> (Texto (take 4 (drop 0 s)), Texto (take 2 (drop 5 s))))
            (linhas df2))"
proof (intro conjI impI)
  assume "escolher_coluna_data nome df = Some c"
  then have c: "c = ''DataVenda'' \<or> c = ''DataEmissaoNF''"
    by (auto simp: escolher_coluna_data_def split: if_splits)
  then show "map (\<lambda>r. (celula r ''Ano'', celula r ''Mes'')) (linhas (derivar_ano_mes amb (Some c) df2)) =
        map (\<lambda>r. case como_texto amb (celula r c) of
                    None \<Rightarrow> (Nulo, Nulo)
                  | Some s \<Rightarrow> (Texto (take 4 (drop 0 s)), Texto (take 2 (drop 5 s))))
            (linhas df2)"
    by (auto simp: derivar_ano_mes_def com_coluna_def Let_def cast_utf8_def str_slice_def
             split: option.splits)
qed (auto simp: escolher_coluna_data_def partition_cols_def)

theorem derivacao_chave_particao_witness:
  "escolher_coluna_data ''Vendas'' df_vendas = Some ''DataVenda''
   \<and> partition_cols (escolher_coluna_data ''Vendas'' df_vendas) = [''idEmpresa'', ''Ano'', ''Mes'']
   \<and> ''Estoque'' \<noteq> ''Vendas'' \<and> ''Estoque'' \<noteq> ''Compras''
   \<and> escolher_coluna_data ''Estoque'' df_vendas = None
   \<and> partition_cols (escolher_coluna_data ''Estoque'' df_vendas) = [''idEmpresa'']
   \<and> map (\<lambda>r. (celula r ''Ano'', celula r ''Mes''))
          (linhas (derivar_ano_mes amb_exemplo (Some ''DataVenda'') df_vendas))
       = [(Texto ''2024'', Texto ''03''), (Texto ''2024'', Texto ''04''), (Texto ''2024'', Texto ''03'')]"
proof -
  note t = derivacao_chave_particao [where df = df_vendas and amb = amb_exemplo and ?df2.0 = df_vendas]
  have h1: "escolher_coluna_data ''Vendas'' df_vendas = Some ''DataVenda''" by code_simp
  have h2: "''Estoque'' \<noteq> ''Vendas'' \<and> ''Estoque'' \<noteq> ''Compras''" by simp
  from t [where nome = "''Estoque''"] h2 have c1: "escolher_coluna_data ''Estoque'' df_vendas = None"
    by blast
  from t [where nome = "''Vendas''"] h1
  have c2: "partition_cols (escolher_coluna_data ''Vendas'' df_vendas) = [''idEmpresa'', ''Ano'', ''Mes'']"
    by simp
  from t [where nome = "''Estoque''"] c1
  have c3: "partition_cols (escolher_coluna_data ''Estoque'' df_vendas) = [''idEmpresa'']"
    by simp
  have e: "map (\<lambda>r. case como_texto amb_exemplo (celula r ''DataVenda'') of
                    None \<Rightarrow> (Nulo, Nulo)
                  | Some s \<Rightarrow> (Texto (take 4 (drop 0 s)), Texto (take 2 (drop 5 s))))
            (linhas df_vendas)
       = [(Texto ''2024'', Texto ''03''), (Texto ''2024'', Texto ''04''), (Texto ''2024'', Texto ''03'')]"
    by code_simp
  from t [where nome = "''Vendas''" and c = "''DataVenda''"] h1 e
  have c4: "map (\<lambda>r. (celula r ''Ano'', celula r ''Mes''))
          (linhas (derivar_ano_mes amb_exemplo (Some ''DataVenda'') df_vendas))
       = [(Texto ''2024'', Texto ''03''), (Texto ''2024'', Texto ''04''), (Texto ''2024'', Texto ''03'')]"
    by simp
  show ?thesis by (intro conjI h1 c2 h2 [THEN conjunct1] h2 [THEN conjunct2] c1 c3 c4)
qed

section \<open>The sales-time column\<close>

lemma casa_hora_take: "casa_hora s \<Longrightarrow> length (take 8 s) = 8 \<and> casa_hora (take 8 s)"
  by (erule casa_hora.elims(2)) simp

lemma str_extract_forma: "str_extract s = Some m \<Longrightarrow> length m = 8 \<and> casa_hora m"
proof (induction s)
  case Nil
  then show ?case by simp
next
  case (Cons c cs)
  show ?case
  proof (cases "casa_hora (c # cs)")
    case True
    with Cons.prems have "m = take 8 (c # cs)" by simp
    with True casa_hora_take [of "c # cs"] show ?thesis by simp
  next
    case False
    with Cons show ?thesis by simp
  qed
qed

lemma hora_objeto_forma: "\<exists>s. hora_objeto x = Texto s \<and> length s = 8 \<and> casa_hora s"
proof (cases "str_extract (py_str x)")
  case None
  then show ?thesis by (simp add: hora_objeto_def e_digito_def)
next
  case (Some m)
  with str_extract_forma [OF Some] show ?thesis by (simp add: hora_objeto_def)
qed

lemma py_split_aux_vazio: "py_split_aux acc s = [] \<longleftrightarrow> acc = [] \<and> list_all espaco s"
  by (induction s arbitrary: acc) auto

lemma timedelta_str_tem_letra: "CHR ''d'' \<in> set (timedelta_str n)"
  by (simp add: timedelta_str_def Let_def)

lemma py_split_timedelta: "py_split (timedelta_str n) \<noteq> []"
proof
  assume "py_split (timedelta_str n) = []"
  then have "list_all espaco (timedelta_str n)" by (simp add: py_split_def py_split_aux_vazio)
  with timedelta_str_tem_letra [of n] have "espaco CHR ''d''" by (auto simp: list_all_iff)
  then show False by (simp add: espaco_def)
qed

lemma hora_timedelta_total: "e_duracao x \<Longrightarrow> \<exists>s. hora_timedelta x = Inr (Texto s)"
proof (cases x)
  case (Duracao n)
  obtain t ts where "py_split (timedelta_str n) = t # ts"
    using py_split_timedelta [of n] by (cases "py_split (timedelta_str n)") auto
  with Duracao show ?thesis by (simp add: hora_timedelta_def pd_isna_def py_str_def)
qed (simp_all add: hora_timedelta_def pd_isna_def e_duracao_def)

lemma aplicar_total:
  "list_all (\<lambda>x. \<exists>y. f x = Inr y) xs \<Longrightarrow> \<exists>ys. aplicar f xs = Inr ys"
  by (induction xs) auto

lemma normalizar_hora_total:
  assumes "list_all (\<lambda>r. e_duracao (celula r ''HoraVenda'')) (linhas df)"
  shows "\<exists>df'. normalizar_hora df = Inr df'"
proof -
  have "list_all (\<lambda>r. \<exists>y. hora_timedelta (celula r ''HoraVenda'') = Inr y) (linhas df)"
    using assms hora_timedelta_total by (auto simp: list_all_iff)
  then obtain vs where "aplicar (\<lambda>r. hora_timedelta (celula r ''HoraVenda'')) (linhas df) = Inr vs"
    using aplicar_total [of "\<lambda>r. hora_timedelta (celula r ''HoraVenda'')" "linhas df"] by blast
  then show ?thesis by (simp add: normalizar_hora_def split: option.splits)
qed

text \<open>
  C8.  The duration branch (line 191) takes the last word of the text of the duration.  That
  is \<open>HH:MM:SS\<close> for a whole number of seconds that is not negative, but it keeps the
  fraction of a second and, for a negative duration, the sign: neither result has the fixed
  width.  A missing value becomes \<open>00:00:00\<close>.
\<close>

theorem hora_fracionaria:
  "normalizar_hora df_horas =
     Inr \<lparr>colunas = [(''HoraVenda'', Object)],
          linhas = [[(''HoraVenda'', Texto ''14:30:00'')],
                    [(''HoraVenda'', Texto ''00:00:01.500000'')],
                    [(''HoraVenda'', Texto ''+23:59:59'')],
                    [(''HoraVenda'', Texto ''00:00:00'')]]\<rparr>"
  by code_simp

section \<open>Sessions in parallel mode\<close>

lemma na_sessao_simps [simp]: "na_sessao s (Executou s q)" "na_sessao s (Dormiu n)"
  by (simp_all add: na_sessao_def)

lemma pq_write_eventos [simp]: "eventos (snd (pq_write_to_dataset amb df root cols w)) = eventos w"
proof (cases "os_makedirs root w")
  case (Pair x w1)
  with os_makedirs_eventos [of root w] have "eventos w1 = eventos w" by simp
  with Pair show ?thesis
    by (cases x) (simp_all add: pq_write_to_dataset_def Let_def criar_pastas_def)
qed

lemma corpo_eventos [simp]: "eventos (snd (processar_dados_corpo amb df nome pasta w)) = eventos w"
proof (cases "os_makedirs pasta w")
  case (Pair x w1)
  with os_makedirs_eventos [of pasta w] have e: "eventos w1 = eventos w" by simp
  show ?thesis
  proof (cases x)
    case (Inl a)
    with Pair e show ?thesis by (simp add: processar_dados_corpo_def)
  next
    case (Inr u)
    show ?thesis
    proof (cases "quadro_final amb df nome")
      case (Inl a)
      with Pair Inr e show ?thesis by (simp add: processar_dados_corpo_def Let_def)
    next
      case df2: (Inr dfp)
      let ?wr = "pq_write_to_dataset amb dfp (os_path_join pasta nome)
                   (partition_cols (escolher_coluna_data nome df)) w1"
      have "eventos (snd ?wr) = eventos w" using pq_write_eventos e by simp
      with Pair Inr df2 show ?thesis
        by (cases ?wr) (auto simp: processar_dados_corpo_def Let_def split: sum.splits)
    qed
  qed
qed

lemma processar_dados_eventos [simp]: "eventos (snd (processar_dados amb df nome pasta w)) = eventos w"
  using corpo_eventos [of amb df nome pasta w]
  by (cases "processar_dados_corpo amb df nome pasta w") (auto simp: processar_dados_def split: sum.splits)

lemma tentativa_eventos:
  "eventos (snd (tentativa amb con nome query pasta w)) = eventos w @ [Executou con query]"
  by (simp add: tentativa_def pd_read_sql_def split: resposta.splits)

lemma repetir_eventos:
  "\<exists>evs. eventos (snd (repetir n amb con nome query pasta w)) = eventos w @ evs \<and> list_all (na_sessao con) evs"
proof (induction n arbitrary: w)
  case 0
  show ?case by simp
next
  case (Suc n)
  obtain x w1 where t: "tentativa amb con nome query pasta w = (x, w1)"
    by (cases "tentativa amb con nome query pasta w")
  with tentativa_eventos [of amb con nome query pasta w]
  have e: "eventos w1 = eventos w @ [Executou con query]" by simp
  show ?case
  proof (cases x)
    case (Inr r)
    with t e show ?thesis by simp
  next
    case (Inl err)
    show ?thesis
    proof (cases "err = OperationalError")
      case False
      with t e Inl show ?thesis by simp
    next
      case True
      from Suc.IH [of "time_sleep 5 w1"] obtain evs where
        "eventos (snd (repetir n amb con nome query pasta (time_sleep 5 w1))) = eventos (time_sleep 5 w1) @ evs"
        "list_all (na_sessao con) evs" by blast
      with t e Inl True show ?thesis by (simp add: time_sleep_def)
    qed
  qed
qed

lemma processa_consulta_eventos:
  "\<exists>evs. eventos (snd (processa_consulta amb con pasta c w)) = eventos w @ evs \<and> list_all (na_sessao con) evs"
  using repetir_eventos [of retries amb con "nome_da_consulta c" "map_of c ''query''" pasta w]
  by (cases "repetir retries amb con (nome_da_consulta c) (map_of c ''query'') pasta w")
     (auto simp: processa_consulta_def executar_consulta_def Let_def split: sum.splits)

lemma laco_eventos:
  "\<exists>evs. eventos (snd (laco amb con pasta cs (acc, w))) = eventos w @ evs \<and> list_all (na_sessao con) evs"
proof (induction cs arbitrary: acc w)
  case Nil
  show ?case by simp
next
  case (Cons c cs)
  obtain t w1 where p: "processa_consulta amb con pasta c w = (t, w1)"
    by (cases "processa_consulta amb con pasta c w")
  with processa_consulta_eventos [of amb con pasta c w] obtain e1 where
    e1: "eventos w1 = eventos w @ e1" "list_all (na_sessao con) e1" by auto
  from Cons.IH [of "guardar t acc" w1] obtain e2 where
    e2: "eventos (snd (laco amb con pasta cs (guardar t acc, w1))) = eventos w1 @ e2" "list_all (na_sessao con) e2"
    by blast
  from p e1 e2 have "eventos (snd (laco amb con pasta (c # cs) (acc, w))) = eventos w @ (e1 @ e2)
      \<and> list_all (na_sessao con) (e1 @ e2)" by simp
  then show ?case by blast
qed

text \<open>
  C3.  In parallel mode the only session ever opened is the one the orchestrator opens:
  between the opening and the closing of that session the trace holds nothing but sleeps and
  executions on that same session, so every worker runs its query on the shared session.
\<close>

theorem sessao_unica_em_paralelo:
  assumes "executar_consultas amb consultas pasta True workers agenda w = (Inr r, w')"
  shows "\<exists>evs. eventos w' =
            eventos w @ [Conectou (length (filter e_conexao (eventos w)))] @ evs
                      @ [Fechou (length (filter e_conexao (eventos w)))]
          \<and> list_all (na_sessao (length (filter e_conexao (eventos w)))) evs"
proof -
  let ?s = "length (filter e_conexao (eventos w))"
  obtain x w1 where m: "os_makedirs pasta w = (x, w1)" by (cases "os_makedirs pasta w")
  with os_makedirs_eventos [of pasta w] have e1: "eventos w1 = eventos w" by simp
  from assms m obtain u where x: "x = Inr u"
    by (cases x) (simp_all add: executar_consultas_def)
  from assms m x have f: "falha_conexao amb = None"
    by (cases "falha_conexao amb") (simp_all add: executar_consultas_def conectar_ao_banco_def)
  let ?w2 = "registrar (Conectou ?s) w1"
  have c: "conectar_ao_banco amb w1 = (Inr ?s, ?w2)"
    using f e1 by (simp add: conectar_ao_banco_def Let_def)
  show ?thesis
  proof (cases "workers \<le> 0")
    case True
    with assms m x c have "w' = fechar_conexao ?s ?w2"
      by (simp add: executar_consultas_def Let_def)
    with e1 show ?thesis by (simp add: fechar_conexao_def)
  next
    case False
    let ?st = "laco amb ?s pasta (ordem agenda consultas) (vazio, ?w2)"
    from False assms m x c have w': "w' = fechar_conexao ?s (snd ?st)"
      by (simp add: executar_consultas_def Let_def)
    from laco_eventos [of amb ?s pasta "ordem agenda consultas" vazio ?w2] obtain evs where
      "eventos (snd ?st) = eventos ?w2 @ evs" "list_all (na_sessao ?s) evs" by blast
    with w' e1 show ?thesis by (simp add: fechar_conexao_def)
  qed
qed

theorem sessao_unica_em_paralelo_witness:
  "(\<exists>r w'. executar_consultas amb_exemplo [c_vendas, c_inacessivel] [''tmp''] True 2 [1, 0] mundo_inicial = (Inr r, w')
      \<and> eventos w' =
          [Conectou 0,
           Executou 0 (Some ''select * from clientes''), Dormiu 5,
           Executou 0 (Some ''select * from clientes''), Dormiu 5,
           Executou 0 (Some ''select * from clientes''), Dormiu 5,
           Executou 0 (Some ''select * from clientes''), Dormiu 5,
           Executou 0 (Some ''select * from clientes''), Dormiu 5,
           Executou 0 (Some ''select * from vendas''),
           Fechou 0]
      \<and> (\<exists>evs. eventos w' =
            eventos mundo_inicial @ [Conectou (length (filter e_conexao (eventos mundo_inicial)))] @ evs
                      @ [Fechou (length (filter e_conexao (eventos mundo_inicial)))]
          \<and> list_all (na_sessao (length (filter e_conexao (eventos mundo_inicial)))) evs))"
proof -
  let ?run = "executar_consultas amb_exemplo [c_vendas, c_inacessivel] [''tmp''] True 2 [1, 0] mundo_inicial"
  have ok: "falha_conexao amb_exemplo = None" "fst (os_makedirs [''tmp''] mundo_inicial) = Inr ()"
    by code_simp+
  from executar_consultas_Inr [OF ok, of "[c_vendas, c_inacessivel]" True 2 "[1, 0]"]
  obtain r where "fst ?run = Inr r" by blast
  then obtain w' where run: "?run = (Inr r, w')" by (cases ?run) simp
  have "eventos (snd ?run) =
          [Conectou 0,
           Executou 0 (Some ''select * from clientes''), Dormiu 5,
           Executou 0 (Some ''select * from clientes''), Dormiu 5,
           Executou 0 (Some ''select * from clientes''), Dormiu 5,
           Executou 0 (Some ''select * from clientes''), Dormiu 5,
           Executou 0 (Some ''select * from clientes''), Dormiu 5,
           Executou 0 (Some ''select * from vendas''),
           Fechou 0]"
    by code_simp
  with run have ev: "eventos w' =
          [Conectou 0,
           Executou 0 (Some ''select * from clientes''), Dormiu 5,
           Executou 0 (Some ''select * from clientes''), Dormiu 5,
           Executou 0 (Some ''select * from clientes''), Dormiu 5,
           Executou 0 (Some ''select * from clientes''), Dormiu 5,
           Executou 0 (Some ''select * from clientes''), Dormiu 5,
           Executou 0 (Some ''select * from vendas''),
           Fechou 0]" by simp
  note t = sessao_unica_em_paralelo [OF run]
  from run ev t show ?thesis by blast
qed

section \<open>The file system after the partitioned write\<close>

lemma set_criar_pastas [simp]: "set (pastas (criar_pastas ds w)) = set (pastas w) \<union> set ds"
  by (auto simp: criar_pastas_def)

lemma arquivos_criar_pastas [simp]: "arquivos (criar_pastas ds w) = arquivos w"
  by (simp add: criar_pastas_def)

lemma set_ancestrais: "set (ancestrais p) = {take k p | k. 1 \<le> k \<and> k \<le> length p}"
  by (auto simp: ancestrais_def)

lemma ancestrais_comprimento: "q \<in> set (ancestrais p) \<Longrightarrow> q \<noteq> [] \<and> length q \<le> length p"
  by (auto simp: set_ancestrais)

lemma ancestrais_filho:
  assumes "q \<in> set (ancestrais (root @ segs))" and "butlast q = root"
  shows "segs \<noteq> [] \<and> q = root @ [hd segs]"
proof -
  from assms(1) obtain k where k: "q = take k (root @ segs)" "1 \<le> k" "k \<le> length (root @ segs)"
    by (auto simp: set_ancestrais)
  then have lq: "length q = k" by simp
  from k have "q \<noteq> []" by auto
  then have "0 < length q" by simp
  moreover have "length (butlast q) = length q - 1" by simp
  ultimately have "length q = Suc (length root)" using assms(2) by simp
  with lq have kk: "k = Suc (length root)" by simp
  with k(3) have s: "segs \<noteq> []" by auto
  with k(1) kk have "q = root @ [hd segs]" by (cases segs) simp_all
  with s show ?thesis by simp
qed

lemma filho_em_ancestrais:
  assumes "segs \<noteq> []"
  shows "root @ [hd segs] \<in> set (ancestrais (root @ segs))"
proof -
  from assms have t: "take (Suc (length root)) (root @ segs) = root @ [hd segs]"
    by (cases segs) simp_all
  from assms have l: "Suc (length root) \<le> length (root @ segs)" by (cases segs) simp_all
  have "take (Suc (length root)) (root @ segs) \<in> set (ancestrais (root @ segs))"
    unfolding set_ancestrais using l by (auto intro!: exI [of _ "Suc (length root)"])
  with t show ?thesis by simp
qed

lemma os_makedirs_sucesso:
  assumes "os_makedirs p w = (Inr u, w1)"
  shows "set (pastas w1) = set (pastas w) \<union> set (ancestrais p) \<and> arquivos w1 = arquivos w
         \<and> eventos w1 = eventos w \<and> p \<noteq> []"
  using assms by (auto simp: os_makedirs_def criar_pastas_def split: if_splits)

lemma map_enumerate_snd: "map (\<lambda>(i, x). g x) (enumerate n xs) = map g xs"
  by (induction xs arbitrary: n) auto

lemma pastas_de_novos_lista:
  "map fst (novos_arquivos amb df root cols n) =
     map (pasta_particao amb root cols) (remdups (map (chave cols) (linhas df)))"
proof -
  have "map fst (novos_arquivos amb df root cols n) =
        map (\<lambda>(i, x). pasta_particao amb root cols (fst x)) (enumerate n (grupos cols (linhas df)))"
    by (simp add: novos_arquivos_def case_prod_unfold)
  also have "... = map (\<lambda>x. pasta_particao amb root cols (fst x)) (grupos cols (linhas df))"
    by (rule map_enumerate_snd)
  also have "... = map (pasta_particao amb root cols) (remdups (map (chave cols) (linhas df)))"
    by (simp add: grupos_def comp_def)
  finally show ?thesis .
qed

lemma pasta_de_novos:
  "set (map fst (novos_arquivos amb df root cols n)) =
     (\<lambda>r. pasta_particao amb root cols (chave cols r)) ` set (linhas df)"
  unfolding pastas_de_novos_lista by (simp add: image_image)

lemma pq_write_sucesso:
  assumes "pq_write_to_dataset amb df root cols w = (Inr u, w2)"
  shows "set (pastas w2) = set (pastas w) \<union> set (ancestrais root)
            \<union> (\<Union>r\<in>set (linhas df). set (ancestrais (pasta_particao amb root cols (chave cols r))))
       \<and> arquivos w2 = arquivos w @ novos_arquivos amb df root cols (length (arquivos w))
       \<and> root \<noteq> []"
proof -
  from assms have c: "list_all (\<lambda>c. c \<in> set (nomes df)) cols"
    by (auto simp: pq_write_to_dataset_def split: if_splits)
  obtain x w1 where m: "os_makedirs root w = (x, w1)" by (cases "os_makedirs root w")
  with assms c obtain v where x: "x = Inr v" by (cases x) (simp_all add: pq_write_to_dataset_def)
  note s = os_makedirs_sucesso [OF m [unfolded x]]
  let ?novos = "novos_arquivos amb df root cols (length (arquivos w1))"
  let ?ds = "concat (map (\<lambda>(d, n, rs). ancestrais d) ?novos)"
  from assms c m x have w2: "w2 = (criar_pastas ?ds w1)\<lparr>arquivos := arquivos (criar_pastas ?ds w1) @ ?novos\<rparr>"
    by (simp add: pq_write_to_dataset_def Let_def)
  have "set ?ds = (\<Union>d\<in>set (map fst ?novos). set (ancestrais d))"
    by force
  also have "... = (\<Union>r\<in>set (linhas df). set (ancestrais (pasta_particao amb root cols (chave cols r))))"
    unfolding pasta_de_novos by blast
  finally have d: "set ?ds =
      (\<Union>r\<in>set (linhas df). set (ancestrais (pasta_particao amb root cols (chave cols r))))" .
  have "set (pastas w2) = set (pastas w1) \<union> set ?ds"
    unfolding w2 by simp
  with d s have p: "set (pastas w2) = set (pastas w) \<union> set (ancestrais root)
            \<union> (\<Union>r\<in>set (linhas df). set (ancestrais (pasta_particao amb root cols (chave cols r))))"
    by simp
  have "arquivos w2 = arquivos w1 @ ?novos" unfolding w2 by simp
  with s have a: "arquivos w2 = arquivos w @ novos_arquivos amb df root cols (length (arquivos w))"
    by simp
  from p a s show ?thesis by simp
qed

lemma corpo_sucesso:
  assumes "processar_dados_corpo amb df nome pasta w = (Inr (p, ps), w')"
  shows "\<exists>dfa w1 ds. os_makedirs pasta w = (Inr (), w1)
           \<and> quadro_final amb df nome = Inr dfa
           \<and> p = os_path_join pasta nome
           \<and> pq_write_to_dataset amb dfa p (partition_cols (escolher_coluna_data nome df)) w1 = (Inr (), w')
           \<and> os_listdir w' p = Inr ds
           \<and> ps = set (map (os_path_join p) ds)"
proof -
  obtain x w1 where m: "os_makedirs pasta w = (x, w1)" by (cases "os_makedirs pasta w")
  with assms have x: "x = Inr ()" by (cases x) (simp_all add: processar_dados_corpo_def)
  from assms m x obtain dfa where q: "quadro_final amb df nome = Inr dfa"
    by (cases "quadro_final amb df nome") (simp_all add: processar_dados_corpo_def Let_def)
  let ?p = "os_path_join pasta nome"
  let ?cols = "partition_cols (escolher_coluna_data nome df)"
  obtain y w2 where wr: "pq_write_to_dataset amb dfa ?p ?cols w1 = (y, w2)"
    by (cases "pq_write_to_dataset amb dfa ?p ?cols w1")
  with assms m x q have y: "y = Inr ()"
    by (cases y) (simp_all add: processar_dados_corpo_def Let_def)
  from assms m x q wr y obtain ds where l: "os_listdir w2 ?p = Inr ds"
    by (cases "os_listdir w2 ?p") (simp_all add: processar_dados_corpo_def Let_def)
  from assms m x q wr y l have e: "?p = p" "set (map (os_path_join ?p) ds) = ps" "w2 = w'"
    by (auto simp: processar_dados_corpo_def Let_def)
  from m x have 1: "os_makedirs pasta w = (Inr (), w1)" by simp
  from wr y e have 2: "pq_write_to_dataset amb dfa p ?cols w1 = (Inr (), w')" by simp
  from l e have 3: "os_listdir w' p = Inr ds" by simp
  from e have 4: "p = os_path_join pasta nome" "ps = set (map (os_path_join p) ds)" by auto
  from 1 q 2 3 4 show ?thesis by blast
qed

lemma processar_dados_sucesso:
  assumes "processar_dados amb df nome pasta w = (Inr (p, ps), w')" and "p \<noteq> []"
  shows "processar_dados_corpo amb df nome pasta w = (Inr (p, ps), w')"
proof (cases "processar_dados_corpo amb df nome pasta w")
  case (Pair x w1)
  with assms show ?thesis by (cases x) (simp_all add: processar_dados_def)
qed

lemma partition_cols_nao_vazio: "partition_cols cd = ''idEmpresa'' # tl (partition_cols cd)"
  by (simp add: partition_cols_def)

lemma pasta_particao_Cons:
  "pasta_particao amb root (c # cols) (chave (c # cols) r) =
     root @ nome_particao amb c (celula r c) # map (\<lambda>(c, v). nome_particao amb c v) (zip cols (chave cols r))"
  by (simp add: pasta_particao_def chave_def)

section \<open>The returned partition set\<close>

lemma comprimento_filho: "q \<noteq> [] \<Longrightarrow> butlast q = p \<Longrightarrow> length q = Suc (length p)"
  by (cases q rule: rev_cases) auto

lemma novos_fora_da_raiz:
  "filter (\<lambda>(d, n, rs). d = root) (novos_arquivos amb df root (partition_cols cd) k) = []"
proof -
  have "\<And>d n rs. (d, n, rs) \<in> set (novos_arquivos amb df root (partition_cols cd) k) \<Longrightarrow> d \<noteq> root"
  proof -
    fix d n rs assume "(d, n, rs) \<in> set (novos_arquivos amb df root (partition_cols cd) k)"
    then have "d \<in> set (map fst (novos_arquivos amb df root (partition_cols cd) k))" by force
    then obtain r where "d = pasta_particao amb root (partition_cols cd) (chave (partition_cols cd) r)"
      unfolding pasta_de_novos by blast
    then show "d \<noteq> root"
      by (subst (asm) partition_cols_nao_vazio, subst (asm) partition_cols_nao_vazio)
         (simp add: pasta_particao_Cons)
  qed
  then show ?thesis unfolding filter_empty_conv by blast
qed

lemma junta_ultimo: "q \<noteq> [] \<Longrightarrow> butlast q = p \<Longrightarrow> os_path_join p (last q) = q"
  by (cases q rule: rev_cases) (auto simp: os_path_join_def)

lemma listagem_apos_escrita:
  assumes wr: "pq_write_to_dataset amb dfa p (partition_cols cd) w1 = (Inr (), w')"
      and ar: "filter (\<lambda>(d, n, rs). d = p) (arquivos w1) = []"
      and ls: "os_listdir w' p = Inr ds"
  shows "set (map (os_path_join p) ds) = {q \<in> set (pastas w'). q \<noteq> [] \<and> butlast q = p}"
proof -
  from pq_write_sucesso [OF wr]
  have a: "arquivos w' = arquivos w1 @ novos_arquivos amb dfa p (partition_cols cd) (length (arquivos w1))"
    by simp
  have f: "filter (\<lambda>(d, n, rs). d = p) (arquivos w') = []"
    unfolding a using ar novos_fora_da_raiz [of p amb dfa cd] by simp
  from ls f have ds: "ds = remdups (map last (filter (\<lambda>q. q \<noteq> [] \<and> butlast q = p) (pastas w')))"
    by (simp add: os_listdir_def split: if_splits)
  have "set (map (os_path_join p) ds) = (\<lambda>q. os_path_join p (last q)) ` {q \<in> set (pastas w'). q \<noteq> [] \<and> butlast q = p}"
    unfolding ds by (auto simp: image_iff)
  also have "... = {q \<in> set (pastas w'). q \<noteq> [] \<and> butlast q = p}"
  proof (intro equalityI subsetI)
    fix x assume "x \<in> (\<lambda>q. os_path_join p (last q)) ` {q \<in> set (pastas w'). q \<noteq> [] \<and> butlast q = p}"
    then obtain q where q: "q \<in> set (pastas w')" "q \<noteq> []" "butlast q = p" "x = os_path_join p (last q)"
      by blast
    with junta_ultimo [OF q(2,3)] show "x \<in> {q \<in> set (pastas w'). q \<noteq> [] \<and> butlast q = p}" by simp
  next
    fix x assume "x \<in> {q \<in> set (pastas w'). q \<noteq> [] \<and> butlast q = p}"
    then have x: "x \<in> set (pastas w')" "x \<noteq> []" "butlast x = p" by auto
    from junta_ultimo [OF x(2,3)] x
    show "x \<in> (\<lambda>q. os_path_join p (last q)) ` {q \<in> set (pastas w'). q \<noteq> [] \<and> butlast q = p}"
      by (intro image_eqI [of _ _ x]) simp_all
  qed
  finally show ?thesis .
qed

lemma filhos_apos_escrita:
  assumes wr: "pq_write_to_dataset amb dfa (os_path_join pasta nome) (partition_cols cd) w1 = (Inr (), w')"
      and mk: "os_makedirs pasta w = (Inr (), w1)"
      and fr: "list_all (\<lambda>q. butlast q \<noteq> os_path_join pasta nome) (pastas w)"
  shows "{q \<in> set (pastas w'). q \<noteq> [] \<and> butlast q = os_path_join pasta nome} =
           (\<lambda>r. os_path_join (os_path_join pasta nome) (nome_particao amb ''idEmpresa'' (celula r ''idEmpresa'')))
             ` set (linhas dfa)"
    (is "?L = ?R")
proof -
  let ?p = "os_path_join pasta nome"
  let ?cols = "partition_cols cd"
  let ?segs = "\<lambda>r. nome_particao amb ''idEmpresa'' (celula r ''idEmpresa'')
                  # map (\<lambda>(c, v). nome_particao amb c v) (zip (tl ?cols) (chave (tl ?cols) r))"
  have pp: "\<And>r. pasta_particao amb ?p ?cols (chave ?cols r) = ?p @ ?segs r"
    by (subst partition_cols_nao_vazio, subst partition_cols_nao_vazio) (simp add: pasta_particao_Cons)
  from pq_write_sucesso [OF wr] os_makedirs_sucesso [OF mk]
  have ps: "set (pastas w') = set (pastas w) \<union> set (ancestrais pasta) \<union> set (ancestrais ?p)
              \<union> (\<Union>r\<in>set (linhas dfa). set (ancestrais (?p @ ?segs r)))"
    by (simp add: pp)
  show ?thesis
  proof (intro equalityI subsetI)
    fix q assume "q \<in> ?L"
    then have q: "q \<in> set (pastas w')" "q \<noteq> []" "butlast q = ?p" by auto
    then have lq: "length q = Suc (length ?p)" by (simp add: comprimento_filho)
    from q(3) fr have 1: "q \<notin> set (pastas w)" by (auto simp: list_all_iff)
    from lq ancestrais_comprimento [of q pasta] have 2: "q \<notin> set (ancestrais pasta)"
      by (auto simp: os_path_join_def)
    from lq ancestrais_comprimento [of q ?p] have 3: "q \<notin> set (ancestrais ?p)" by auto
    from q(1) 1 2 3 ps obtain r where r: "r \<in> set (linhas dfa)" "q \<in> set (ancestrais (?p @ ?segs r))"
      by auto
    from ancestrais_filho [OF r(2) q(3)] have "q = ?p @ [hd (?segs r)]" by simp
    with r(1) show "q \<in> ?R" by (auto simp: os_path_join_def)
  next
    fix q assume "q \<in> ?R"
    then obtain r where r: "r \<in> set (linhas dfa)" "q = ?p @ [hd (?segs r)]"
      by (auto simp: os_path_join_def)
    have "?p @ [hd (?segs r)] \<in> set (ancestrais (?p @ ?segs r))"
      by (rule filho_em_ancestrais) simp
    with r ps have "q \<in> set (pastas w')" by blast
    with r(2) show "q \<in> ?L" by simp
  qed
qed

text \<open>
  C9.  After a successful materialisation into a dataset root that held no plain file, the
  returned set is exactly the set of the directories directly inside the root: every path in
  it is one component longer than the root, so no \<open>Ano\<close> or \<open>Mes\<close> directory below a
  partition directory is in it.  When the root had no child before, the set is the set of
  the \<open>idEmpresa\<close> directories of the rows written.
\<close>

theorem listagem_rasa:
  assumes "processar_dados amb df nome pasta w = (Inr (p, ps), w')" and "p \<noteq> []"
      and "list_all (\<lambda>(d, n, rs). d \<noteq> os_path_join pasta nome) (arquivos w)"
  shows "p = os_path_join pasta nome
       \<and> ps = {q \<in> set (pastas w'). q \<noteq> [] \<and> butlast q = p}
       \<and> ps \<subseteq> {q. length q = Suc (length p)}
       \<and> (list_all (\<lambda>q. butlast q \<noteq> os_path_join pasta nome) (pastas w) \<longrightarrow>
            (\<exists>dfa. quadro_final amb df nome = Inr dfa
               \<and> ps = (\<lambda>r. os_path_join p (nome_particao amb ''idEmpresa'' (celula r ''idEmpresa'')))
                        ` set (linhas dfa)))"
proof -
  from corpo_sucesso [OF processar_dados_sucesso [OF assms(1,2)]]
  obtain dfa w1 ds where
    mk: "os_makedirs pasta w = (Inr (), w1)" and
    qf: "quadro_final amb df nome = Inr dfa" and
    p: "p = os_path_join pasta nome" and
    wr: "pq_write_to_dataset amb dfa p (partition_cols (escolher_coluna_data nome df)) w1 = (Inr (), w')" and
    ls: "os_listdir w' p = Inr ds" and
    ps: "ps = set (map (os_path_join p) ds)"
    by blast
  from os_makedirs_sucesso [OF mk] assms(3) p
  have ar: "filter (\<lambda>(d, n, rs). d = p) (arquivos w1) = []"
    by (auto simp: filter_empty_conv list_all_iff)
  have 2: "ps = {q \<in> set (pastas w'). q \<noteq> [] \<and> butlast q = p}"
    unfolding ps by (rule listagem_apos_escrita [OF wr ar ls])
  have 3: "ps \<subseteq> {q. length q = Suc (length p)}"
  proof
    fix q assume "q \<in> ps"
    with 2 have "q \<noteq> []" "butlast q = p" by auto
    then have "length q = Suc (length p)" by (rule comprimento_filho)
    then show "q \<in> {q. length q = Suc (length p)}" by simp
  qed
  have 4: "list_all (\<lambda>q. butlast q \<noteq> os_path_join pasta nome) (pastas w) \<longrightarrow>
            (\<exists>dfa. quadro_final amb df nome = Inr dfa
               \<and> ps = (\<lambda>r. os_path_join p (nome_particao amb ''idEmpresa'' (celula r ''idEmpresa'')))
                        ` set (linhas dfa))"
  proof
    assume fr: "list_all (\<lambda>q. butlast q \<noteq> os_path_join pasta nome) (pastas w)"
    from filhos_apos_escrita [OF wr [unfolded p] mk fr] 2 p qf
    show "\<exists>dfa. quadro_final amb df nome = Inr dfa
               \<and> ps = (\<lambda>r. os_path_join p (nome_particao amb ''idEmpresa'' (celula r ''idEmpresa'')))
                        ` set (linhas dfa)"
      by auto
  qed
  from p 2 3 4 show ?thesis by blast
qed

lemma execucao_vendas:
  "processar_dados amb_exemplo df_vendas ''Vendas'' [''tmp''] mundo_inicial =
     (Inr ([''tmp'', ''Vendas''], {[''tmp'', ''Vendas'', ''idEmpresa=7'']}), mundo_vendas)"
  by code_simp

theorem listagem_rasa_witness:
  "processar_dados amb_exemplo df_vendas ''Vendas'' [''tmp''] mundo_inicial =
     (Inr ([''tmp'', ''Vendas''], {[''tmp'', ''Vendas'', ''idEmpresa=7'']}), mundo_vendas)
   \<and> [''tmp'', ''Vendas''] \<noteq> []
   \<and> list_all (\<lambda>(d, n, rs). d \<noteq> os_path_join [''tmp''] ''Vendas'') (arquivos mundo_inicial)
   \<and> list_all (\<lambda>q. butlast q \<noteq> os_path_join [''tmp''] ''Vendas'') (pastas mundo_inicial)
   \<and> [''tmp'', ''Vendas''] = os_path_join [''tmp''] ''Vendas''
   \<and> {[''tmp'', ''Vendas'', ''idEmpresa=7'']} =
       {q \<in> set (pastas mundo_vendas). q \<noteq> [] \<and> butlast q = [''tmp'', ''Vendas'']}
   \<and> {[''tmp'', ''Vendas'', ''idEmpresa=7'']} \<subseteq> {q. length q = Suc (length [''tmp'', ''Vendas''])}
   \<and> (\<exists>dfa. quadro_final amb_exemplo df_vendas ''Vendas'' = Inr dfa
         \<and> {[''tmp'', ''Vendas'', ''idEmpresa=7'']} =
             (\<lambda>r. os_path_join [''tmp'', ''Vendas''] (nome_particao amb_exemplo ''idEmpresa'' (celula r ''idEmpresa'')))
               ` set (linhas dfa))
   \<and> [''tmp'', ''Vendas'', ''idEmpresa=7'', ''Ano=2024''] \<in> set (pastas mundo_vendas)"
proof -
  have h2: "[''tmp'', ''Vendas''] \<noteq> ([] :: caminho)" by simp
  have h3: "list_all (\<lambda>(d, n, rs). d \<noteq> os_path_join [''tmp''] ''Vendas'') (arquivos mundo_inicial)"
    by (simp add: mundo_inicial_def)
  have h4: "list_all (\<lambda>q. butlast q \<noteq> os_path_join [''tmp''] ''Vendas'') (pastas mundo_inicial)"
    by (simp add: mundo_inicial_def)
  note t = listagem_rasa [OF execucao_vendas h2 h3]
  from t h4 have c4: "\<exists>dfa. quadro_final amb_exemplo df_vendas ''Vendas'' = Inr dfa
         \<and> {[''tmp'', ''Vendas'', ''idEmpresa=7'']} =
             (\<lambda>r. os_path_join [''tmp'', ''Vendas''] (nome_particao amb_exemplo ''idEmpresa'' (celula r ''idEmpresa'')))
               ` set (linhas dfa)"
    by blast
  have e: "[''tmp'', ''Vendas'', ''idEmpresa=7'', ''Ano=2024''] \<in> set (pastas mundo_vendas)"
    by (simp add: mundo_vendas_def)
  show ?thesis
    by (intro conjI execucao_vendas h2 h3 h4 c4 e t [THEN conjunct1] t [THEN conjunct2, THEN conjunct1]
          t [THEN conjunct2, THEN conjunct2, THEN conjunct1])
qed

section \<open>Rows and partitions\<close>

lemma mset_dois_filtros:
  "k \<notin> set ks \<Longrightarrow>
   mset (map g (filter (\<lambda>r. f r = k) rs)) + mset (map g (filter (\<lambda>r. f r \<in> set ks) rs)) =
   mset (map g (filter (\<lambda>r. f r = k \<or> f r \<in> set ks) rs))"
  by (induction rs) auto

lemma mset_grupos:
  "distinct ks \<Longrightarrow>
   (\<Sum>k\<leftarrow>ks. mset (map g (filter (\<lambda>r. f r = k) rs))) = mset (map g (filter (\<lambda>r. f r \<in> set ks) rs))"
proof (induction ks)
  case Nil
  show ?case by simp
next
  case (Cons k ks)
  then have "(\<Sum>k\<leftarrow>k # ks. mset (map g (filter (\<lambda>r. f r = k) rs))) =
      mset (map g (filter (\<lambda>r. f r = k) rs)) + mset (map g (filter (\<lambda>r. f r \<in> set ks) rs))"
    by simp
  also have "... = mset (map g (filter (\<lambda>r. f r = k \<or> f r \<in> set ks) rs))"
    using Cons.prems by (intro mset_dois_filtros) simp
  finally show ?case by (simp add: disj_commute eq_commute)
qed

lemma map_no_grupo:
  "map (\<lambda>r. (h k, s r)) (filter (\<lambda>r. c r = k) xs) = map (\<lambda>r. (h (c r), s r)) (filter (\<lambda>r. c r = k) xs)"
  by (induction xs) auto

lemma linhas_gravadas_novos:
  "mset (linhas_gravadas (novos_arquivos amb df root cols n)) =
     mset (map (\<lambda>r. (pasta_particao amb root cols (chave cols r), sem_colunas cols r)) (linhas df))"
proof -
  let ?g = "\<lambda>r. (pasta_particao amb root cols (chave cols r), sem_colunas cols r)"
  let ?ks = "remdups (map (chave cols) (linhas df))"
  have "linhas_gravadas (novos_arquivos amb df root cols n) =
        concat (map (\<lambda>(i, x). map (Pair (pasta_particao amb root cols (fst x))) (map (sem_colunas cols) (snd x)))
                    (enumerate n (grupos cols (linhas df))))"
    by (simp add: linhas_gravadas_def novos_arquivos_def case_prod_unfold comp_def)
  also have "... = concat (map (\<lambda>x. map (Pair (pasta_particao amb root cols (fst x))) (map (sem_colunas cols) (snd x)))
                    (grupos cols (linhas df)))"
    by (simp only: map_enumerate_snd)
  also have "... = concat (map (\<lambda>k. map ?g (filter (\<lambda>r. chave cols r = k) (linhas df))) ?ks)"
    by (simp add: grupos_def comp_def map_no_grupo [of "pasta_particao amb root cols"])
  finally have "mset (linhas_gravadas (novos_arquivos amb df root cols n)) =
      (\<Sum>k\<leftarrow>?ks. mset (map ?g (filter (\<lambda>r. chave cols r = k) (linhas df))))"
    by (simp add: mset_concat comp_def)
  also have "... = mset (map ?g (filter (\<lambda>r. chave cols r \<in> set ?ks) (linhas df)))"
    by (rule mset_grupos) simp
  also have "... = mset (map ?g (linhas df))" by simp
  finally show ?thesis .
qed

lemma comprimento_linhas_gravadas:
  "length (linhas_gravadas fs) = sum_list (map (\<lambda>(d, n, rs). length rs) fs)"
  by (induction fs) (auto simp: linhas_gravadas_def)

lemma novos_sob_raiz:
  "filter (\<lambda>(d, n, rs). prefix root d) (novos_arquivos amb df root cols k) = novos_arquivos amb df root cols k"
proof -
  have "\<And>d n rs. (d, n, rs) \<in> set (novos_arquivos amb df root cols k) \<Longrightarrow> prefix root d"
  proof -
    fix d n rs assume "(d, n, rs) \<in> set (novos_arquivos amb df root cols k)"
    then have "d \<in> set (map fst (novos_arquivos amb df root cols k))" by force
    then obtain r where "d = pasta_particao amb root cols (chave cols r)"
      unfolding pasta_de_novos by blast
    then show "prefix root d" by (simp add: pasta_particao_def)
  qed
  then show ?thesis unfolding filter_id_conv by blast
qed

lemma aplicar_comprimento: "aplicar f xs = Inr ys \<Longrightarrow> length ys = length xs"
  by (induction xs arbitrary: ys) (auto split: sum.splits)

lemma normalizar_hora_comprimento:
  "normalizar_hora df = Inr df1 \<Longrightarrow> length (linhas df1) = length (linhas df)"
  by (auto simp: normalizar_hora_def com_coluna_def split: option.splits if_splits sum.splits
           dest: aplicar_comprimento)

lemma aumentar_comprimento [simp]: "length (linhas (aumentar amb df)) = length (linhas df)"
  by (simp add: aumentar_def com_coluna_def)

lemma derivar_comprimento [simp]: "length (linhas (derivar_ano_mes amb cd df)) = length (linhas df)"
  by (simp add: derivar_ano_mes_def com_coluna_def Let_def split: option.splits)

lemma quadro_final_comprimento:
  assumes "quadro_final amb df nome = Inr dfa"
      and "\<forall>d d'. ajustar_tipos_dados amb d nome = Inr d' \<longrightarrow> length (linhas d') = length (linhas d)"
  shows "length (linhas dfa) = length (linhas df)"
proof -
  from assms(1) obtain df1 where n: "normalizar_hora df = Inr df1"
    by (cases "normalizar_hora df") (simp_all add: quadro_final_def)
  let ?d = "derivar_ano_mes amb (escolher_coluna_data nome df) (aumentar amb df1)"
  from assms(1) n have "ajustar_tipos_dados amb ?d nome = Inr dfa"
    by (cases "ajustar_tipos_dados amb ?d nome") (simp_all add: quadro_final_def split: if_splits)
  with assms(2) have "length (linhas dfa) = length (linhas ?d)" by blast
  with normalizar_hora_comprimento [OF n] show ?thesis by simp
qed

text \<open>
  C1.  After a successful materialisation into a dataset root that held no file, the rows
  found in the files below the root, each taken with the directory of its file, are exactly
  the rows of the frame that was written, each taken with the partition directory of its own
  values in the partition columns: as multisets, so no row is lost, none is written twice,
  and none lies in another directory.  When the type adjustment keeps the number of rows, the
  number of rows in all these files is the number of rows of the raw result.
\<close>

theorem linhas_preservadas:
  assumes "processar_dados amb df nome pasta w = (Inr (p, ps), w')" and "p \<noteq> []"
      and "\<forall>d d'. ajustar_tipos_dados amb d nome = Inr d' \<longrightarrow> length (linhas d') = length (linhas d)"
      and "list_all (\<lambda>(d, n, rs). \<not> prefix (os_path_join pasta nome) d) (arquivos w)"
  shows "\<exists>dfa. quadro_final amb df nome = Inr dfa
           \<and> mset (linhas_gravadas (arquivos_sob p w')) =
               mset (map (\<lambda>r. (pasta_particao amb p (partition_cols (escolher_coluna_data nome df))
                                   (chave (partition_cols (escolher_coluna_data nome df)) r),
                                sem_colunas (partition_cols (escolher_coluna_data nome df)) r))
                         (linhas dfa))
           \<and> sum_list (map (\<lambda>(d, n, rs). length rs) (arquivos_sob p w')) = length (linhas df)"
proof -
  let ?cols = "partition_cols (escolher_coluna_data nome df)"
  from corpo_sucesso [OF processar_dados_sucesso [OF assms(1,2)]]
  obtain dfa w1 ds where
    mk: "os_makedirs pasta w = (Inr (), w1)" and
    qf: "quadro_final amb df nome = Inr dfa" and
    p: "p = os_path_join pasta nome" and
    wr: "pq_write_to_dataset amb dfa p ?cols w1 = (Inr (), w')"
    by blast
  let ?novos = "novos_arquivos amb dfa p ?cols (length (arquivos w))"
  from pq_write_sucesso [OF wr] os_makedirs_sucesso [OF mk]
  have a: "arquivos w' = arquivos w @ ?novos" by simp
  from assms(4) p have "filter (\<lambda>(d, n, rs). prefix p d) (arquivos w) = []"
    by (auto simp: filter_empty_conv list_all_iff)
  with a novos_sob_raiz [of p amb dfa ?cols "length (arquivos w)"]
  have s: "arquivos_sob p w' = ?novos" by (simp add: arquivos_sob_def)
  have m: "mset (linhas_gravadas (arquivos_sob p w')) =
             mset (map (\<lambda>r. (pasta_particao amb p ?cols (chave ?cols r), sem_colunas ?cols r)) (linhas dfa))"
    unfolding s by (rule linhas_gravadas_novos)
  from m have "size (mset (linhas_gravadas (arquivos_sob p w'))) = length (linhas dfa)"
    by simp
  then have "sum_list (map (\<lambda>(d, n, rs). length rs) (arquivos_sob p w')) = length (linhas dfa)"
    by (simp add: comprimento_linhas_gravadas)
  with quadro_final_comprimento [OF qf assms(3)]
  have c: "sum_list (map (\<lambda>(d, n, rs). length rs) (arquivos_sob p w')) = length (linhas df)" by simp
  from qf m c show ?thesis by blast
qed

theorem linhas_preservadas_witness:
  "processar_dados amb_exemplo df_vendas ''Vendas'' [''tmp''] mundo_inicial =
     (Inr ([''tmp'', ''Vendas''], {[''tmp'', ''Vendas'', ''idEmpresa=7'']}), mundo_vendas)
   \<and> [''tmp'', ''Vendas''] \<noteq> []
   \<and> (\<forall>d. ajustar_tipos_dados amb_exemplo d ''Vendas'' = Inr d)
   \<and> list_all (\<lambda>(d, n, rs). \<not> prefix (os_path_join [''tmp''] ''Vendas'') d) (arquivos mundo_inicial)
   \<and> (\<exists>dfa. quadro_final amb_exemplo df_vendas ''Vendas'' = Inr dfa
         \<and> mset (linhas_gravadas (arquivos_sob [''tmp'', ''Vendas''] mundo_vendas)) =
               mset (map (\<lambda>r. (pasta_particao amb_exemplo [''tmp'', ''Vendas'']
                                   (partition_cols (escolher_coluna_data ''Vendas'' df_vendas))
                                   (chave (partition_cols (escolher_coluna_data ''Vendas'' df_vendas)) r),
                                sem_colunas (partition_cols (escolher_coluna_data ''Vendas'' df_vendas)) r))
                         (linhas dfa))
         \<and> sum_list (map (\<lambda>(d, n, rs). length rs) (arquivos_sob [''tmp'', ''Vendas''] mundo_vendas))
             = length (linhas df_vendas))
   \<and> length (linhas df_vendas) = 3
   \<and> map (\<lambda>(d, n, rs). (d, length rs)) (arquivos_sob [''tmp'', ''Vendas''] mundo_vendas) =
       [([''tmp'', ''Vendas'', ''idEmpresa=7'', ''Ano=2024'', ''Mes=04''], 1),
        ([''tmp'', ''Vendas'', ''idEmpresa=7'', ''Ano=2024'', ''Mes=03''], 2)]"
proof -
  have h2: "[''tmp'', ''Vendas''] \<noteq> ([] :: caminho)" by simp
  have h3: "\<forall>d. ajustar_tipos_dados amb_exemplo d ''Vendas'' = Inr d"
    by (simp add: amb_exemplo_def)
  then have h3': "\<forall>d d'. ajustar_tipos_dados amb_exemplo d ''Vendas'' = Inr d' \<longrightarrow>
                    length (linhas d') = length (linhas d)"
    by simp
  have h4: "list_all (\<lambda>(d, n, rs). \<not> prefix (os_path_join [''tmp''] ''Vendas'') d) (arquivos mundo_inicial)"
    by (simp add: mundo_inicial_def)
  note t = linhas_preservadas [OF execucao_vendas h2 h3' h4]
  have e1: "length (linhas df_vendas) = 3" by (simp add: df_vendas_def)
  have e2: "map (\<lambda>(d, n, rs). (d, length rs)) (arquivos_sob [''tmp'', ''Vendas''] mundo_vendas) =
       [([''tmp'', ''Vendas'', ''idEmpresa=7'', ''Ano=2024'', ''Mes=04''], 1),
        ([''tmp'', ''Vendas'', ''idEmpresa=7'', ''Ano=2024'', ''Mes=03''], 2)]"
    by code_simp
  show ?thesis by (intro conjI execucao_vendas h2 h3 h4 t e1 e2)
qed

end
